theory Spec2Isabelle
  imports Main
begin

section \<open>Data model\<close>

text \<open>
  The backend keeps users, doctors and appointments in relational tables that the
  handlers reach through an object-relational mapper. A table is modelled as the list of
  its rows that a query sees (rows that are not soft-deleted), in insertion order; no
  handler of the repository deletes a row.

  A \<open>time.Time\<close> is an instant, modelled as whole seconds since the Unix epoch, read in
  UTC. The fraction of a second plays no part in any format the handlers print.
  An identifier (\<open>uint\<close>) is a natural number.
\<close>

type_synonym Time = int

text \<open>The zero value of \<open>time.Time\<close>, 0001-01-01T00:00:00Z, in seconds since the epoch.\<close>

definition zero_Time :: Time where
  "zero_Time = - 62135596800"

text \<open>models/user.go: role and status constants.\<close>

definition PatientRole :: string where "PatientRole = ''patient''"
definition DoctorRole :: string where "DoctorRole = ''doctor''"
definition AdminRole :: string where "AdminRole = ''admin''"

definition StatusPending :: string where "StatusPending = ''pending''"
definition StatusConfirmed :: string where "StatusConfirmed = ''confirmed''"
definition StatusCancelled :: string where "StatusCancelled = ''cancelled''"
definition StatusCompleted :: string where "StatusCompleted = ''completed''"

text \<open>
  models/user.go, \<open>User\<close>: the key, the credentials, the role and the activity flag, and the
  profile strings that registration leaves empty. The time stamps of the row
  (created, updated, last login, date of birth) are not modelled.
\<close>

record User =
  user_ID :: nat
  user_Name :: string
  user_Email :: string
  user_Password :: string
  user_Role :: string
  user_Active :: bool
  user_Phone :: string

text \<open>
  models/doctor.go, \<open>Doctor\<close>. The fee and the rating are floating-point numbers; they
  are carried as integers and no handler computes with them.
\<close>

record Doctor =
  doc_ID :: nat
  doc_UserID :: nat
  doc_Specialization :: string
  doc_Qualification :: string
  doc_Experience :: int
  doc_Bio :: string
  doc_ConsultationFee :: int
  doc_Available :: bool

text \<open>models, \<open>Appointment\<close>: the key, the two owners, the three instants, the status and the texts.\<close>

record Appointment =
  appt_ID :: nat
  appt_PatientID :: nat
  appt_DoctorID :: nat
  appt_AppointmentDate :: Time
  appt_StartTime :: Time
  appt_EndTime :: Time
  appt_Status :: string
  appt_Reason :: string
  appt_Notes :: string
  appt_IsFollowUp :: bool
  appt_FollowUpNotes :: string
  appt_IsPaid :: bool
  appt_PaymentReference :: string
  appt_CancellationReason :: string

text \<open>
  models, \<open>Schedule\<close>: a doctor's declared window for one day, the start and the end as
  \<open>"15:04"\<close> texts.
\<close>

record Schedule =
  sched_ID :: nat
  sched_DoctorID :: nat
  sched_Date :: Time
  sched_StartTime :: string
  sched_EndTime :: string
  sched_IsAvailable :: bool

record DB =
  users :: "User list"
  doctors :: "Doctor list"
  schedules :: "Schedule list"
  appointments :: "Appointment list"

section \<open>Responses\<close>

text \<open>
  A handler answers with a status code and a JSON value (\<open>c.JSON(code, obj)\<close>). A
  \<open>gin.H\<close> is a JSON object, written here as the list of its members.
\<close>

datatype json =
  JNull
  | JBool bool
  | JNum int
  | JStr string
  | JArr "json list"
  | JObj "(string \<times> json) list"

datatype response = Response (code: nat) (body: json)

definition StatusOK :: nat where "StatusOK = 200"
definition StatusCreated :: nat where "StatusCreated = 201"
definition StatusBadRequest :: nat where "StatusBadRequest = 400"
definition StatusUnauthorized :: nat where "StatusUnauthorized = 401"
definition StatusForbidden :: nat where "StatusForbidden = 403"
definition StatusNotFound :: nat where "StatusNotFound = 404"
definition StatusConflict :: nat where "StatusConflict = 409"
definition StatusInternalServerError :: nat where "StatusInternalServerError = 500"

text \<open>\<open>gin.H{"error": msg}\<close> and \<open>gin.H{"message": msg}\<close>.\<close>

definition error_H :: "string \<Rightarrow> json" where
  "error_H msg = JObj [(''error'', JStr msg)]"

definition message_H :: "string \<Rightarrow> json" where
  "message_H msg = JObj [(''message'', JStr msg)]"

text \<open>
  The JSON of an appointment row: the members of the modelled fields, under the names of
  the struct's \<open>json\<close> tags. Instants are shown as their number of seconds. The nested
  patient and doctor objects and the row's time stamps are left out.
\<close>

definition Appointment_json :: "Appointment \<Rightarrow> json" where
  "Appointment_json a = JObj
     [(''ID'', JNum (int (appt_ID a))),
      (''patient_id'', JNum (int (appt_PatientID a))),
      (''doctor_id'', JNum (int (appt_DoctorID a))),
      (''appointment_date'', JNum (appt_AppointmentDate a)),
      (''start_time'', JNum (appt_StartTime a)),
      (''end_time'', JNum (appt_EndTime a)),
      (''status'', JStr (appt_Status a)),
      (''reason'', JStr (appt_Reason a)),
      (''notes'', JStr (appt_Notes a)),
      (''is_follow_up'', JBool (appt_IsFollowUp a)),
      (''follow_up_notes'', JStr (appt_FollowUpNotes a)),
      (''is_paid'', JBool (appt_IsPaid a)),
      (''payment_reference'', JStr (appt_PaymentReference a)),
      (''cancellation_reason'', JStr (appt_CancellationReason a))]"

section \<open>Store operations\<close>

text \<open>
  A statement fails in this store only where the table's constraints refuse it; a lost
  connection or a time-out is not modelled. Where a handler has a branch for the error of
  a statement that no constraint can refuse (the update of a status, the query for the
  booked appointments), the branch answers 500 in the source and is not reached here.

  \<open>db.Where(cond).First(&row)\<close>: the first row, in the order of the keys, that meets the
  condition, or the record-not-found error (\<open>None\<close>). The rows of a table are listed in
  the order of their keys.
\<close>

definition First :: "('a \<Rightarrow> bool) \<Rightarrow> 'a list \<Rightarrow> 'a option" where
  "First cond rows = find cond rows"

text \<open>The key the table gives a new row: one more than the largest key in it.\<close>

definition next_ID :: "nat list \<Rightarrow> nat" where
  "next_ID ids = Suc (foldr max ids 0)"

text \<open>
  \<open>db.Create(&appointment)\<close>: the row gets its key and is appended. The schema that the
  models declare ties \<open>patient_id\<close> to a user and \<open>doctor_id\<close> to a doctor (the
  \<open>foreignKey\<close> tags); an insert that breaks a tie is the failure that the handler answers
  with 500.
\<close>

definition Create_Appointment :: "DB \<Rightarrow> Appointment \<Rightarrow> (DB \<times> Appointment) option" where
  "Create_Appointment db a =
     (if appt_PatientID a \<in> set (map user_ID (users db))
         \<and> appt_DoctorID a \<in> set (map doc_ID (doctors db))
      then (let a' = a\<lparr>appt_ID := next_ID (map appt_ID (appointments db))\<rparr>
            in Some (db\<lparr>appointments := appointments db @ [a']\<rparr>, a'))
      else None)"

text \<open>
  \<open>db.Model(&Appointment{}).Where(cond).Update("status", s)\<close>: every row that meets the
  condition gets the status; the number of those rows is \<open>RowsAffected\<close>.
\<close>

definition Update_status :: "(Appointment \<Rightarrow> bool) \<Rightarrow> string \<Rightarrow> DB \<Rightarrow> DB \<times> nat" where
  "Update_status cond s db =
     (db\<lparr>appointments :=
            map (\<lambda>a. if cond a then a\<lparr>appt_Status := s\<rparr> else a) (appointments db)\<rparr>,
      length (filter cond (appointments db)))"

section \<open>Appointment lifecycle\<close>

text \<open>
  \<open>UpdateAppointmentStatus\<close>: the body is the decoded request struct, \<open>None\<close> when the
  body is not JSON of that shape; a member that is absent decodes to the empty string.
  The binding demands \<open>required,oneof=confirmed cancelled completed\<close>. The text of a
  binding error is the validation library's and is a parameter here. \<open>userID\<close> is the key
  of the logged-in user and \<open>appointmentID\<close> the key that the path parameter denotes.
\<close>

definition bind_status :: "string option \<Rightarrow> string option" where
  "bind_status b =
     (case b of
        None \<Rightarrow> None
      | Some s \<Rightarrow> if s \<in> set [''confirmed'', ''cancelled'', ''completed''] then Some s else None)"

definition UpdateAppointmentStatus ::
  "string \<Rightarrow> DB \<Rightarrow> nat \<Rightarrow> nat \<Rightarrow> string option \<Rightarrow> DB \<times> response" where
  "UpdateAppointmentStatus bind_err db userID appointmentID b =
     (case First (\<lambda>d. doc_UserID d = userID) (doctors db) of
        None \<Rightarrow> (db, Response StatusNotFound (error_H ''Doctor not found''))
      | Some doctor \<Rightarrow>
          (case bind_status b of
             None \<Rightarrow> (db, Response StatusBadRequest (error_H bind_err))
           | Some status \<Rightarrow>
               (case Update_status
                       (\<lambda>a. appt_ID a = appointmentID \<and> appt_DoctorID a = doc_ID doctor)
                       status db of
                  (db', RowsAffected) \<Rightarrow>
                    if RowsAffected = 0
                    then (db', Response StatusNotFound (error_H ''Appointment not found''))
                    else (db', Response StatusOK
                                 (message_H ''Appointment status updated successfully'')))))"

text \<open>
  \<open>CancelAppointment\<close>: the appointment is looked up by its key and the patient's key;
  one that is already cancelled is refused; any other gets the status cancelled, by its key.
\<close>

definition CancelAppointment :: "DB \<Rightarrow> nat \<Rightarrow> nat \<Rightarrow> DB \<times> response" where
  "CancelAppointment db userID appointmentID =
     (case First (\<lambda>a. appt_ID a = appointmentID \<and> appt_PatientID a = userID)
                 (appointments db) of
        None \<Rightarrow> (db, Response StatusNotFound (error_H ''Appointment not found''))
      | Some appointment \<Rightarrow>
          if appt_Status appointment = StatusCancelled
          then (db, Response StatusBadRequest (error_H ''Appointment is already cancelled''))
          else (fst (Update_status (\<lambda>a. appt_ID a = appt_ID appointment) StatusCancelled db),
                Response StatusOK (message_H ''Appointment cancelled successfully'')))"

text \<open>The status of the appointment with a given key, if there is one.\<close>

definition status_of :: "DB \<Rightarrow> nat \<Rightarrow> string option" where
  "status_of db i = map_option appt_Status (find (\<lambda>a. appt_ID a = i) (appointments db))"

section \<open>Clock and calendar\<close>

text \<open>
  The calendar day of an instant (SQL \<open>DATE(t)\<close>, in UTC) as days since the epoch, and
  its hour and minute.
\<close>

definition DATE :: "Time \<Rightarrow> int" where
  "DATE t = t div 86400"

definition Hour :: "Time \<Rightarrow> nat" where
  "Hour t = nat ((t mod 86400) div 3600)"

definition Minute :: "Time \<Rightarrow> nat" where
  "Minute t = nat ((t mod 3600) div 60)"

text \<open>\<open>time.Date(y, m, d, hour, 0, 0, 0, time.UTC)\<close>, the day given as days since the epoch.\<close>

definition Date :: "int \<Rightarrow> int \<Rightarrow> Time" where
  "Date day hour = day * 86400 + hour * 3600"

definition digit_char :: "nat \<Rightarrow> char" where
  "digit_char n = ''0123456789'' ! n"

definition two_digits :: "nat \<Rightarrow> string" where
  "two_digits n = [digit_char (n div 10), digit_char (n mod 10)]"

text \<open>\<open>t.Format("15:04")\<close>: the hour and the minute, two digits each.\<close>

definition Format_1504 :: "Time \<Rightarrow> string" where
  "Format_1504 t = two_digits (Hour t) @ '':'' @ two_digits (Minute t)"

text \<open>
  \<open>time.Parse("2006-01-02", s)\<close>: four digits, a dash, two digits, a dash and two digits
  and nothing else, the month from 1 to 12 and the day within the month; the result is
  the day, in days since the epoch.
\<close>

definition digit_val :: "char \<Rightarrow> nat option" where
  "digit_val c =
     (let n = (of_char c :: nat) in if 48 \<le> n \<and> n \<le> 57 then Some (n - 48) else None)"

fun digits_val :: "string \<Rightarrow> nat option" where
  "digits_val [] = Some 0"
| "digits_val (c # cs) =
     (case digit_val c of
        None \<Rightarrow> None
      | Some d \<Rightarrow>
          (case digits_val cs of
             None \<Rightarrow> None
           | Some r \<Rightarrow> Some (d * 10 ^ length cs + r)))"

definition isLeap :: "int \<Rightarrow> bool" where
  "isLeap y = (y mod 4 = 0 \<and> (y mod 100 \<noteq> 0 \<or> y mod 400 = 0))"

definition daysIn :: "int \<Rightarrow> int \<Rightarrow> int" where
  "daysIn m y =
     (if m = 2 then (if isLeap y then 29 else 28)
      else if m = 4 \<or> m = 6 \<or> m = 9 \<or> m = 11 then 30 else 31)"

definition days_from_civil :: "int \<Rightarrow> int \<Rightarrow> int \<Rightarrow> int" where
  "days_from_civil y m d =
     (let y' = (if m \<le> 2 then y - 1 else y);
          era = y' div 400;
          yoe = y' - era * 400;
          doy = (153 * (m + (if m > 2 then - 3 else 9)) + 2) div 5 + d - 1;
          doe = yoe * 365 + yoe div 4 - yoe div 100 + doy
      in era * 146097 + doe - 719468)"

definition parse_date :: "string \<Rightarrow> int option" where
  "parse_date s =
     (if length s = 10 \<and> s ! 4 = CHR ''-'' \<and> s ! 7 = CHR ''-'' then
        (case (digits_val (take 4 s), digits_val (take 2 (drop 5 s)), digits_val (drop 8 s)) of
           (Some y, Some m, Some d) \<Rightarrow>
             if 1 \<le> m \<and> m \<le> 12 \<and> 1 \<le> d \<and> int d \<le> daysIn (int m) (int y)
             then Some (days_from_civil (int y) (int m) (int d))
             else None
         | _ \<Rightarrow> None)
      else None)"

text \<open>A key in decimal, as the path parameter carries it.\<close>

fun decimal :: "nat \<Rightarrow> string" where
  "decimal n = (if n < 10 then [digit_char n] else decimal (n div 10) @ [digit_char (n mod 10)])"

declare decimal.simps [simp del]

section \<open>Availability\<close>

text \<open>
  The loop that generates the slots: from the current instant, one slot every
  \<open>duration\<close> minutes while the instant is before the end. The handler calls it with
  a duration of 30; a duration that is not positive would not leave the loop and gives
  no list here.
\<close>

function gen_slots :: "int \<Rightarrow> Time \<Rightarrow> Time \<Rightarrow> string list" where
  "gen_slots duration currentTime endTime =
     (if 0 < duration \<and> currentTime < endTime
      then Format_1504 currentTime # gen_slots duration (currentTime + duration * 60) endTime
      else [])"
  by pat_completeness auto
termination
  by (relation "measure (\<lambda>(duration, currentTime, endTime). nat (endTime - currentTime))") auto

declare gen_slots.simps [simp del]

text \<open>
  The set of booked slots, a \<open>map[string]bool\<close>: every booked appointment marks the
  hour and minute of its start time. The handler prints the start time as
  \<open>"15:04:05"\<close>, reads it back and prints it as \<open>"15:04"\<close>; the reading never fails.
\<close>

definition bookedSlots :: "Appointment list \<Rightarrow> string \<Rightarrow> bool" where
  "bookedSlots bookedAppointments =
     fold (\<lambda>appt m. m(Format_1504 (appt_StartTime appt) := True)) bookedAppointments (\<lambda>_. False)"

text \<open>
  The query for the booked appointments of the day:
  \<open>doctor_id = ? AND DATE(appointment_date) = ?\<close>.
\<close>

definition bookedAppointments :: "DB \<Rightarrow> nat \<Rightarrow> int \<Rightarrow> Appointment list" where
  "bookedAppointments db doctorID date =
     filter (\<lambda>a. appt_DoctorID a = doctorID \<and> DATE (appt_AppointmentDate a) = date)
            (appointments db)"

definition availableSlots :: "DB \<Rightarrow> nat \<Rightarrow> int \<Rightarrow> string list" where
  "availableSlots db doctorID date =
     (let startHour = 9; endHour = 17; duration = 30;
          timeSlots = gen_slots duration (Date date startHour) (Date date endHour);
          booked = bookedSlots (bookedAppointments db doctorID date)
      in filter (\<lambda>slot. \<not> booked slot) timeSlots)"

text \<open>
  \<open>GetDoctorAvailability\<close>: \<open>dateStr\<close> is the value of the \<open>date\<close> parameter (today's
  date when the request has none), \<open>doctorID\<close> the key that the path parameter denotes.
\<close>

definition GetDoctorAvailability :: "DB \<Rightarrow> nat \<Rightarrow> string \<Rightarrow> response" where
  "GetDoctorAvailability db doctorID dateStr =
     (case parse_date dateStr of
        None \<Rightarrow> Response StatusBadRequest (error_H ''Invalid date format. Use YYYY-MM-DD'')
      | Some date \<Rightarrow>
          (case First (\<lambda>d. doc_ID d = doctorID) (doctors db) of
             None \<Rightarrow> Response StatusNotFound (error_H ''Doctor not found'')
           | Some doctor \<Rightarrow>
               Response StatusOK
                 (JObj [(''doctor_id'', JStr (decimal doctorID)),
                        (''date'', JStr dateStr),
                        (''available_slots'', JArr (map JStr (availableSlots db doctorID date)))])))"

section \<open>Booking\<close>

text \<open>
  The decoded request of \<open>BookAppointment\<close>: a member that the body leaves out has the
  zero value of its type. \<open>doctor_id\<close> and \<open>scheduled_at\<close> are \<open>required\<close>, which refuses
  the zero value.

  A decoded \<open>time.Time\<close> is an instant together with a location. Its zero value is the
  instant 0001-01-01T00:00:00 with the location UTC: the value of an absent member, and of
  that instant written with \<open>Z\<close>. The same instant written with a zone offset has another
  location and is not the zero value. Only the instant is stored and compared.
\<close>

datatype Location = UTC | Zone int

record BookRequest =
  req_DoctorID :: nat
  req_ScheduledAt :: Time
  req_Location :: Location
  req_Notes :: string

definition bind_BookRequest :: "BookRequest option \<Rightarrow> BookRequest option" where
  "bind_BookRequest b =
     (case b of
        None \<Rightarrow> None
      | Some r \<Rightarrow>
          if req_DoctorID r \<noteq> 0 \<and> \<not> (req_ScheduledAt r = zero_Time \<and> req_Location r = UTC)
          then Some r else None)"

definition BookAppointment ::
  "string \<Rightarrow> DB \<Rightarrow> nat \<Rightarrow> BookRequest option \<Rightarrow> DB \<times> response" where
  "BookAppointment bind_err db userID b =
     (case bind_BookRequest b of
        None \<Rightarrow> (db, Response StatusBadRequest (error_H bind_err))
      | Some request \<Rightarrow>
          (case First (\<lambda>d. doc_ID d = req_DoctorID request) (doctors db) of
             None \<Rightarrow> (db, Response StatusNotFound (error_H ''Doctor not found''))
           | Some doctor \<Rightarrow>
               (case First (\<lambda>a. appt_DoctorID a = req_DoctorID request
                                \<and> appt_AppointmentDate a = req_ScheduledAt request
                                \<and> appt_StartTime a = req_ScheduledAt request)
                           (appointments db) of
                  Some existingAppointment \<Rightarrow>
                    (db, Response StatusConflict
                           (error_H ''Doctor is not available at the requested time''))
                | None \<Rightarrow>
                    (case Create_Appointment db
                            \<lparr>appt_ID = 0,
                             appt_PatientID = userID,
                             appt_DoctorID = req_DoctorID request,
                             appt_AppointmentDate = req_ScheduledAt request,
                             appt_StartTime = req_ScheduledAt request,
                             appt_EndTime = req_ScheduledAt request + 30 * 60,
                             appt_Status = ''pending'',
                             appt_Reason = [],
                             appt_Notes = req_Notes request,
                             appt_IsFollowUp = False,
                             appt_FollowUpNotes = [],
                             appt_IsPaid = False,
                             appt_PaymentReference = [],
                             appt_CancellationReason = []\<rparr> of
                       None \<Rightarrow>
                         (db, Response StatusInternalServerError
                                (error_H ''Failed to book appointment''))
                     | Some (db', appointment) \<Rightarrow>
                         (db', Response StatusCreated (Appointment_json appointment))))))"

section \<open>Registration and login\<close>

text \<open>
  What the handlers call outside the repository's sources, as parameters:
  \<open>bcrypt.GenerateFromPassword\<close> (the hash, or an error), \<open>bcrypt.CompareHashAndPassword\<close>
  (whether the password matches the hash), the \<open>email\<close> rule of the validation library, and
  \<open>middleware.GenerateToken\<close> (the token, or an error), whose source is not among the files.
\<close>

record Lib =
  GenerateFromPassword :: "string \<Rightarrow> string option"
  CompareHashAndPassword :: "string \<Rightarrow> string \<Rightarrow> bool"
  is_email :: "string \<Rightarrow> bool"
  GenerateToken :: "nat \<Rightarrow> string \<Rightarrow> string \<Rightarrow> string option"

text \<open>
  \<open>RegisterRequest\<close>, decoded: a member that the body leaves out is empty or zero. The fee
  is a floating-point number, carried as an integer.
\<close>

record RegisterRequest =
  reg_Name :: string
  reg_Email :: string
  reg_Password :: string
  reg_Role :: string
  reg_Specialization :: string
  reg_Qualification :: string
  reg_Experience :: int
  reg_Bio :: string
  reg_ConsultationFee :: int

text \<open>
  The \<open>min=8\<close> rule counts the characters of the password, not its bytes: the bytes of a
  UTF-8 string that do not continue a character.
\<close>

definition RuneCount :: "string \<Rightarrow> nat" where
  "RuneCount s = length (filter (\<lambda>c. \<not> (128 \<le> (of_char c :: nat) \<and> (of_char c :: nat) < 192)) s)"

text \<open>
  The binding of a registration: \<open>name\<close> required; \<open>email\<close> required and an e-mail address;
  \<open>password\<close> required, at least 8 characters; \<open>role\<close> required and one of \<open>patient\<close>,
  \<open>doctor\<close>.
\<close>

definition bind_RegisterRequest :: "Lib \<Rightarrow> RegisterRequest option \<Rightarrow> RegisterRequest option" where
  "bind_RegisterRequest lib b =
     (case b of
        None \<Rightarrow> None
      | Some r \<Rightarrow>
          if reg_Name r \<noteq> []
             \<and> reg_Email r \<noteq> [] \<and> is_email lib (reg_Email r)
             \<and> reg_Password r \<noteq> [] \<and> 8 \<le> RuneCount (reg_Password r)
             \<and> reg_Role r \<noteq> [] \<and> reg_Role r \<in> set [''patient'', ''doctor'']
          then Some r else None)"

text \<open>
  \<open>tx.Create(&user)\<close>: the \<open>BeforeCreate\<close> hook replaces the password by its hash, and its
  error fails the insert; the e-mail column has a unique index.
\<close>

definition Create_User :: "Lib \<Rightarrow> DB \<Rightarrow> User \<Rightarrow> (DB \<times> User) option" where
  "Create_User lib db u =
     (case GenerateFromPassword lib (user_Password u) of
        None \<Rightarrow> None
      | Some hashedPassword \<Rightarrow>
          if user_Email u \<in> set (map user_Email (users db)) then None
          else (let u' = u\<lparr>user_ID := next_ID (map user_ID (users db)),
                           user_Password := hashedPassword\<rparr>
                in Some (db\<lparr>users := users db @ [u']\<rparr>, u')))"

text \<open>\<open>tx.Create(&doc)\<close>: the user column has a unique index and is tied to a user.\<close>

definition Create_Doctor :: "DB \<Rightarrow> Doctor \<Rightarrow> (DB \<times> Doctor) option" where
  "Create_Doctor db d =
     (if doc_UserID d \<in> set (map doc_UserID (doctors db))
         \<or> doc_UserID d \<notin> set (map user_ID (users db)) then None
      else (let d' = d\<lparr>doc_ID := next_ID (map doc_ID (doctors db))\<rparr>
            in Some (db\<lparr>doctors := doctors db @ [d']\<rparr>, d')))"

text \<open>
  \<open>tx.Commit()\<close>: the database of the transaction becomes the database. The handler has
  a branch for its failure; in this store a commit does not fail.
\<close>

definition Commit :: "DB \<Rightarrow> DB option" where
  "Commit tx = Some tx"

text \<open>\<open>AuthResponse\<close>: the token and the user's key, name, e-mail and role.\<close>

definition AuthResponse_json :: "string \<Rightarrow> User \<Rightarrow> json" where
  "AuthResponse_json token user =
     JObj [(''token'', JStr token),
           (''user'', JObj [(''id'', JNum (int (user_ID user))),
                            (''name'', JStr (user_Name user)),
                            (''email'', JStr (user_Email user)),
                            (''role'', JStr (user_Role user))])]"

text \<open>
  \<open>RegisterUser\<close>. A failed insert rolls the transaction back: the database is the one
  before the request. A failure to generate the token comes after the commit.
\<close>

definition RegisterUser ::
  "Lib \<Rightarrow> string \<Rightarrow> DB \<Rightarrow> RegisterRequest option \<Rightarrow> DB \<times> response" where
  "RegisterUser lib bind_err db b =
     (case bind_RegisterRequest lib b of
        None \<Rightarrow> (db, Response StatusBadRequest (error_H bind_err))
      | Some req \<Rightarrow>
          (case First (\<lambda>u. user_Email u = reg_Email req) (users db) of
             Some existingUser \<Rightarrow>
               (db, Response StatusBadRequest (error_H ''Email already registered''))
           | None \<Rightarrow>
               (case Create_User lib db
                       \<lparr>user_ID = 0,
                        user_Name = reg_Name req,
                        user_Email = reg_Email req,
                        user_Password = reg_Password req,
                        user_Role = reg_Role req,
                        user_Active = True,
                        user_Phone = []\<rparr> of
                  None \<Rightarrow>
                    (db, Response StatusInternalServerError (error_H ''Failed to create user''))
                | Some (tx, user) \<Rightarrow>
                    (case (if user_Role user = DoctorRole
                           then map_option fst
                                  (Create_Doctor tx
                                     \<lparr>doc_ID = 0,
                                      doc_UserID = user_ID user,
                                      doc_Specialization = reg_Specialization req,
                                      doc_Qualification = reg_Qualification req,
                                      doc_Experience = reg_Experience req,
                                      doc_Bio = reg_Bio req,
                                      doc_ConsultationFee = reg_ConsultationFee req,
                                      doc_Available = True\<rparr>)
                           else Some tx) of
                       None \<Rightarrow>
                         (db, Response StatusInternalServerError
                                (error_H ''Failed to create doctor profile''))
                     | Some tx' \<Rightarrow>
                         (case Commit tx' of
                            None \<Rightarrow>
                              (db, Response StatusInternalServerError
                                     (error_H ''Failed to complete registration''))
                          | Some db' \<Rightarrow>
                              (case GenerateToken lib (user_ID user) (user_Email user)
                                      (user_Role user) of
                                 None \<Rightarrow>
                                   (db', Response StatusInternalServerError
                                           (error_H ''Failed to generate token''))
                               | Some token \<Rightarrow>
                                   (db', Response StatusCreated
                                           (AuthResponse_json token user))))))))"

text \<open>\<open>LoginRequest\<close>: \<open>email\<close> required and an e-mail address, \<open>password\<close> required.\<close>

record LoginRequest =
  login_Email :: string
  login_Password :: string

definition bind_LoginRequest :: "Lib \<Rightarrow> LoginRequest option \<Rightarrow> LoginRequest option" where
  "bind_LoginRequest lib b =
     (case b of
        None \<Rightarrow> None
      | Some r \<Rightarrow>
          if login_Email r \<noteq> [] \<and> is_email lib (login_Email r) \<and> login_Password r \<noteq> []
          then Some r else None)"

text \<open>\<open>LoginUser\<close> reads the database and does not change it.\<close>

definition LoginUser :: "Lib \<Rightarrow> string \<Rightarrow> DB \<Rightarrow> LoginRequest option \<Rightarrow> response" where
  "LoginUser lib bind_err db b =
     (case bind_LoginRequest lib b of
        None \<Rightarrow> Response StatusBadRequest (error_H bind_err)
      | Some req \<Rightarrow>
          (case First (\<lambda>u. user_Email u = login_Email req) (users db) of
             None \<Rightarrow> Response StatusUnauthorized (error_H ''Invalid email or password'')
           | Some user \<Rightarrow>
               if \<not> CompareHashAndPassword lib (user_Password user) (login_Password req)
               then Response StatusUnauthorized (error_H ''Invalid email or password'')
               else if \<not> user_Active user
               then Response StatusForbidden (error_H ''Account is deactivated'')
               else (case GenerateToken lib (user_ID user) (user_Email user) (user_Role user) of
                       None \<Rightarrow>
                         Response StatusInternalServerError (error_H ''Failed to generate token'')
                     | Some token \<Rightarrow> Response StatusOK (AuthResponse_json token user))))"

section \<open>Listings\<close>










datatype direction = ASC | DESC






















section \<open>Profiles, dashboard and schedules\<close>











text \<open>
  \<open>ScheduleRequest\<close>: \<open>date\<close>, \<open>start_time\<close> and \<open>end_time\<close> are required; \<open>slots\<close> is read and
  not used.
\<close>

record ScheduleRequest =
  sr_Date :: string
  sr_StartTime :: string
  sr_EndTime :: string
  sr_Slots :: "string list"





section \<open>The fixed window, in the words of the specification\<close>

text \<open>
  The specification names the slots of the fixed daily window: every 30 minutes from 09:00
  up to, and not including, 17:00. This list is written from those words; the list the
  handler generates is compared with it below.
\<close>

definition fixed_slots :: "string list" where
  "fixed_slots =
     [''09:00'', ''09:30'', ''10:00'', ''10:30'', ''11:00'', ''11:30'', ''12:00'', ''12:30'',
      ''13:00'', ''13:30'', ''14:00'', ''14:30'', ''15:00'', ''15:30'', ''16:00'', ''16:30'']"

section \<open>The shapes of the payloads, in the words of the specification\<close>









section \<open>Example data\<close>

text \<open>
  A doctor with key 1 whose account is user 2, the patients 3 and 4, and appointments of
  patient 3 with that doctor. 1736499600 is 2025-01-10T09:00:00Z.
\<close>

definition account :: "nat \<Rightarrow> string \<Rightarrow> string \<Rightarrow> bool \<Rightarrow> User" where
  "account i email rl active = \<lparr>user_ID = i, user_Name = ''Test User'', user_Email = email,
     user_Password = ''hash of password123'', user_Role = rl, user_Active = active,
     user_Phone = []\<rparr>"

definition accounts :: "User list" where
  "accounts = [account 2 ''doctor@example.com'' ''doctor'' True,
               account 3 ''patient@example.com'' ''patient'' True,
               account 4 ''inactive@example.com'' ''patient'' False]"

definition doctor1 :: Doctor where
  "doctor1 = \<lparr>doc_ID = 1, doc_UserID = 2, doc_Specialization = ''cardiology'',
     doc_Qualification = ''MD'', doc_Experience = 5, doc_Bio = [], doc_ConsultationFee = 100,
     doc_Available = True\<rparr>"

definition appt_at :: "nat \<Rightarrow> Time \<Rightarrow> string \<Rightarrow> Appointment" where
  "appt_at i t s = \<lparr>appt_ID = i, appt_PatientID = 3, appt_DoctorID = 1,
     appt_AppointmentDate = t, appt_StartTime = t, appt_EndTime = t + 30 * 60,
     appt_Status = s, appt_Reason = [], appt_Notes = ''checkup'', appt_IsFollowUp = False,
     appt_FollowUpNotes = [], appt_IsPaid = False, appt_PaymentReference = [],
     appt_CancellationReason = []\<rparr>"

definition db_lifecycle :: DB where
  "db_lifecycle = \<lparr>users = accounts, doctors = [doctor1], schedules = [],
     appointments = [appt_at 1 1736499600 ''cancelled'', appt_at 2 1736501400 ''completed'']\<rparr>"

text \<open>
  The same doctor with one pending appointment at 09:00:00, and with one cancelled
  appointment at 09:00:30, on 2025-01-10 (day 20098 since the epoch).
\<close>

definition db_doctor :: DB where
  "db_doctor = \<lparr>users = accounts, doctors = [doctor1], schedules = [], appointments = []\<rparr>"

definition db_booked :: DB where
  "db_booked = \<lparr>users = accounts, doctors = [doctor1], schedules = [],
     appointments = [appt_at 1 1736499600 ''pending'']\<rparr>"

definition db_offset :: DB where
  "db_offset = \<lparr>users = accounts, doctors = [doctor1], schedules = [],
     appointments = [appt_at 1 1736499630 ''cancelled'']\<rparr>"

text \<open>
  Two doctors (keys 1 and 2, the accounts 2 and 5) and a day with both: on 2025-01-10
  doctor 1 has a pending appointment at 09:00 and a cancelled one, of patient 4, at 10:30,
  doctor 2 has a confirmed one at 09:30; on the next day doctor 1 has a completed one at
  11:00.
\<close>

definition doctor2 :: Doctor where
  "doctor2 = \<lparr>doc_ID = 2, doc_UserID = 5, doc_Specialization = ''dermatology'',
     doc_Qualification = ''MD'', doc_Experience = 9, doc_Bio = [], doc_ConsultationFee = 80,
     doc_Available = True\<rparr>"

definition appt_of :: "nat \<Rightarrow> nat \<Rightarrow> nat \<Rightarrow> Time \<Rightarrow> string \<Rightarrow> Appointment" where
  "appt_of i patient doctor t s = \<lparr>appt_ID = i, appt_PatientID = patient,
     appt_DoctorID = doctor, appt_AppointmentDate = t, appt_StartTime = t,
     appt_EndTime = t + 30 * 60, appt_Status = s, appt_Reason = [], appt_Notes = ''checkup'',
     appt_IsFollowUp = False, appt_FollowUpNotes = [], appt_IsPaid = False,
     appt_PaymentReference = [], appt_CancellationReason = []\<rparr>"

definition db_day :: DB where
  "db_day = \<lparr>users = accounts @ [account 5 ''doctor2@example.com'' ''doctor'' True],
     doctors = [doctor1, doctor2], schedules = [],
     appointments = [appt_of 1 3 1 1736499600 ''pending'',
                     appt_of 2 3 2 1736501400 ''confirmed'',
                     appt_of 3 4 1 1736505000 ''cancelled'',
                     appt_of 4 3 1 1736593200 ''completed'']\<rparr>"

text \<open>
  The same two doctors on 2025-01-10, doctor 1 with an appointment at 09:00:30 and doctor 2
  with one at 09:30:00.
\<close>

definition db_seconds :: DB where
  "db_seconds = \<lparr>users = accounts @ [account 5 ''doctor2@example.com'' ''doctor'' True],
     doctors = [doctor1, doctor2], schedules = [],
     appointments = [appt_of 1 3 1 1736499630 ''pending'',
                     appt_of 2 3 2 1736501400 ''confirmed'']\<rparr>"

definition request1 :: "Time \<Rightarrow> BookRequest" where
  "request1 t = \<lparr>req_DoctorID = 1, req_ScheduledAt = t, req_Location = UTC,
     req_Notes = ''checkup''\<rparr>"

text \<open>
  A stand-in for the library: the hash of a password is the password behind a prefix, a
  string is an e-mail address when it has an \<open>@\<close>, and a token is always generated.
\<close>

definition lib0 :: Lib where
  "lib0 = \<lparr>GenerateFromPassword = (\<lambda>p. Some (''hash of '' @ p)),
           CompareHashAndPassword = (\<lambda>h p. h = ''hash of '' @ p),
           is_email = (\<lambda>s. CHR ''@'' \<in> set s),
           GenerateToken = (\<lambda>i e r. Some (''token for '' @ e))\<rparr>"

definition register1 :: "string \<Rightarrow> string \<Rightarrow> RegisterRequest" where
  "register1 email rl = \<lparr>reg_Name = ''Test User'', reg_Email = email,
     reg_Password = ''password123'', reg_Role = rl, reg_Specialization = [],
     reg_Qualification = [], reg_Experience = 0, reg_Bio = [], reg_ConsultationFee = 0\<rparr>"

section \<open>Lookups by key\<close>

lemma find_only:
  assumes "a \<in> set xs" and "P a" and "\<And>x. x \<in> set xs \<Longrightarrow> P x \<Longrightarrow> x = a"
  shows "find P xs = Some a"
  using assms
proof (induction xs)
  case Nil
  then show ?case by simp
next
  case (Cons x xs)
  show ?case
  proof (cases "P x")
    case True
    have "x = a" by (rule Cons.prems(3)) (simp_all add: True)
    with True show ?thesis by simp
  next
    case False
    with Cons.prems(1,2) have a: "a \<in> set xs" by force
    have "find P xs = Some a"
    proof (rule Cons.IH)
      show "a \<in> set xs" by (rule a)
      show "P a" by (rule Cons.prems(2))
      show "\<And>y. y \<in> set xs \<Longrightarrow> P y \<Longrightarrow> y = a"
        by (rule Cons.prems(3)) simp_all
    qed
    with False show ?thesis by simp
  qed
qed

lemma key_unique:
  "distinct (map k xs) \<Longrightarrow> a \<in> set xs \<Longrightarrow> x \<in> set xs \<Longrightarrow> k x = k a \<Longrightarrow> x = a"
  by (simp add: distinct_map inj_on_def)

lemma find_unique_key:
  assumes "distinct (map k xs)" and "a \<in> set xs" and "P a" and "\<And>x. P x \<Longrightarrow> k x = k a"
  shows "find P xs = Some a"
proof (rule find_only)
  show "a \<in> set xs" by fact
  show "P a" by fact
  show "\<And>x. x \<in> set xs \<Longrightarrow> P x \<Longrightarrow> x = a"
    by (rule key_unique[OF assms(1,2)]) (simp_all add: assms(4))
qed

lemma find_none_key:
  assumes "distinct (map k xs)" and "a \<in> set xs" and "\<not> P a" and "\<And>x. P x \<Longrightarrow> k x = k a"
  shows "find P xs = None"
proof -
  have "\<not> P x" if "x \<in> set xs" for x
  proof
    assume p: "P x"
    have "x = a" by (rule key_unique[OF assms(1,2) that]) (rule assms(4)[OF p])
    with p assms(3) show False by simp
  qed
  then show ?thesis by (simp add: find_None_iff)
qed

section \<open>Appointment lifecycle: what the handlers do to a status\<close>

lemma find_map_status:
  "find (\<lambda>a. appt_ID a = i) (map (\<lambda>a. if c a then a\<lparr>appt_Status := s\<rparr> else a) xs)
   = map_option (\<lambda>a. if c a then a\<lparr>appt_Status := s\<rparr> else a) (find (\<lambda>a. appt_ID a = i) xs)"
  by (induction xs) simp_all

lemma status_of_Update_status:
  "status_of (fst (Update_status c s db)) i
   = map_option (\<lambda>a. if c a then s else appt_Status a) (find (\<lambda>a. appt_ID a = i) (appointments db))"
  by (cases "find (\<lambda>a. appt_ID a = i) (appointments db)")
     (simp_all add: status_of_def Update_status_def find_map_status)

lemma status_of_Update_status_cases:
  "status_of (fst (Update_status c s db)) j = status_of db j
   \<or> status_of (fst (Update_status c s db)) j = Some s"
  by (cases "find (\<lambda>a. appt_ID a = j) (appointments db)")
     (simp_all add: status_of_Update_status, simp_all add: status_of_def)

lemma bind_status_Some:
  "bind_status b = Some s \<Longrightarrow> b = Some s \<and> s \<in> {StatusConfirmed, StatusCancelled, StatusCompleted}"
  by (auto simp: bind_status_def StatusConfirmed_def StatusCancelled_def StatusCompleted_def
           split: option.splits if_splits)

lemma UpdateAppointmentStatus_fst:
  "fst (UpdateAppointmentStatus e db u i b) =
     (case First (\<lambda>d. doc_UserID d = u) (doctors db) of
        None \<Rightarrow> db
      | Some doctor \<Rightarrow>
          (case bind_status b of
             None \<Rightarrow> db
           | Some status \<Rightarrow>
               fst (Update_status (\<lambda>a. appt_ID a = i \<and> appt_DoctorID a = doc_ID doctor) status db)))"
  by (simp add: UpdateAppointmentStatus_def split: option.splits prod.splits)

lemma CancelAppointment_fst:
  "fst (CancelAppointment db p i) =
     (case First (\<lambda>a. appt_ID a = i \<and> appt_PatientID a = p) (appointments db) of
        None \<Rightarrow> db
      | Some appointment \<Rightarrow>
          if appt_Status appointment = StatusCancelled then db
          else fst (Update_status (\<lambda>a. appt_ID a = appt_ID appointment) StatusCancelled db))"
  by (simp add: CancelAppointment_def split: option.splits)

lemma Update_status_none:
  assumes "\<And>x. x \<in> set (appointments db) \<Longrightarrow> \<not> c x"
  shows "Update_status c s db = (db, 0)"
proof -
  have "map (\<lambda>a. if c a then a\<lparr>appt_Status := s\<rparr> else a) (appointments db) = appointments db"
    by (rule map_idI) (simp add: assms)
  moreover have "filter c (appointments db) = []"
    by (simp add: filter_empty_conv assms)
  ultimately show ?thesis by (simp add: Update_status_def)
qed

lemma status_of_changed:
  assumes "status_of (fst (Update_status c s db)) j \<noteq> status_of db j"
  shows "\<exists>a. find (\<lambda>a. appt_ID a = j) (appointments db) = Some a \<and> c a
             \<and> appt_Status a \<noteq> s \<and> status_of (fst (Update_status c s db)) j = Some s"
proof (cases "find (\<lambda>a. appt_ID a = j) (appointments db)")
  case None
  have "status_of (fst (Update_status c s db)) j = None"
    by (simp add: status_of_Update_status None)
  moreover have "status_of db j = None" by (simp add: status_of_def None)
  ultimately show ?thesis using assms by simp
next
  case (Some a)
  have n: "status_of (fst (Update_status c s db)) j = Some (if c a then s else appt_Status a)"
    by (simp add: status_of_Update_status Some)
  have o: "status_of db j = Some (appt_Status a)" by (simp add: status_of_def Some)
  show ?thesis
  proof (cases "c a")
    case True
    with n o assms Some show ?thesis by simp
  next
    case False
    with n o assms show ?thesis by simp
  qed
qed

lemma find_holds: "find P xs = Some a \<Longrightarrow> P a"
  by (induction xs) (simp_all split: if_splits)

lemma find_key: "find (\<lambda>a. appt_ID a = j) xs = Some a \<Longrightarrow> appt_ID a = j"
  by (rule find_holds)

text \<open>
  Claim C1, as the handlers have it. The doctor's update does not look at the current
  status. For an appointment of the requesting doctor it sets the requested status
  (confirmed, cancelled or completed) whatever the status was, and answers 200; so
  cancelled and completed are not final for the appointment's own doctor. It changes no
  other status: a status changes only if the request is addressed to that appointment, by
  the doctor of that appointment, with one of the three statuses, and then it becomes the
  requested one. A user without a doctor row gets 404, a request with another status 400,
  a doctor asking for an appointment of another doctor 404, and the database is as before.

  The patient's cancellation refuses (400) an appointment of the patient that is already
  cancelled and leaves the database as it was; any other status of the patient's own
  appointment, completed included, becomes cancelled, with 200. It changes no other status:
  a status changes only if the request is addressed to that appointment, by the patient of
  that appointment, and the status was not cancelled, and then it becomes cancelled. So a
  cancelled appointment is never changed by a cancellation, and a completed one only by
  its own patient. A patient asking for an appointment of another patient gets 404 and
  the database is as before.

  Where a clause speaks of an appointment \<open>a\<close> of the table, the table's keys are unique.
\<close>

theorem lifecycle_status_updates:
  "(distinct (map appt_ID (appointments db)) \<and> a \<in> set (appointments db)
      \<and> First (\<lambda>d. doc_UserID d = u) (doctors db) = Some d \<and> appt_DoctorID a = doc_ID d
      \<and> b = Some s \<and> s \<in> {''confirmed'', ''cancelled'', ''completed''}
    \<longrightarrow> status_of (fst (UpdateAppointmentStatus e db u (appt_ID a) b)) (appt_ID a) = Some s
        \<and> snd (UpdateAppointmentStatus e db u (appt_ID a) b)
            = Response 200 (JObj [(''message'', JStr ''Appointment status updated successfully'')]))
   \<and> (status_of (fst (UpdateAppointmentStatus e db u i b)) j \<noteq> status_of db j
    \<longrightarrow> j = i \<and> b \<in> {Some ''confirmed'', Some ''cancelled'', Some ''completed''}
        \<and> status_of (fst (UpdateAppointmentStatus e db u i b)) j = b
        \<and> (\<exists>d' a'. First (\<lambda>d. doc_UserID d = u) (doctors db) = Some d'
                  \<and> find (\<lambda>x. appt_ID x = i) (appointments db) = Some a'
                  \<and> appt_DoctorID a' = doc_ID d'))
   \<and> (First (\<lambda>d. doc_UserID d = u) (doctors db) = None
    \<longrightarrow> UpdateAppointmentStatus e db u i b
          = (db, Response 404 (JObj [(''error'', JStr ''Doctor not found'')])))
   \<and> (First (\<lambda>d. doc_UserID d = u) (doctors db) = Some d
      \<and> b \<notin> {Some ''confirmed'', Some ''cancelled'', Some ''completed''}
    \<longrightarrow> UpdateAppointmentStatus e db u i b = (db, Response 400 (JObj [(''error'', JStr e)])))
   \<and> (distinct (map appt_ID (appointments db)) \<and> a \<in> set (appointments db)
      \<and> First (\<lambda>d. doc_UserID d = u) (doctors db) = Some d \<and> appt_DoctorID a \<noteq> doc_ID d
      \<and> b \<in> {Some ''confirmed'', Some ''cancelled'', Some ''completed''}
    \<longrightarrow> UpdateAppointmentStatus e db u (appt_ID a) b
          = (db, Response 404 (JObj [(''error'', JStr ''Appointment not found'')])))
   \<and> (distinct (map appt_ID (appointments db)) \<and> a \<in> set (appointments db)
      \<and> appt_PatientID a = p \<and> appt_Status a = ''cancelled''
    \<longrightarrow> CancelAppointment db p (appt_ID a)
          = (db, Response 400 (JObj [(''error'', JStr ''Appointment is already cancelled'')])))
   \<and> (distinct (map appt_ID (appointments db)) \<and> a \<in> set (appointments db)
      \<and> appt_PatientID a = p \<and> appt_Status a \<noteq> ''cancelled''
    \<longrightarrow> status_of (fst (CancelAppointment db p (appt_ID a))) (appt_ID a) = Some ''cancelled''
        \<and> snd (CancelAppointment db p (appt_ID a))
            = Response 200 (JObj [(''message'', JStr ''Appointment cancelled successfully'')]))
   \<and> (status_of (fst (CancelAppointment db p i)) j \<noteq> status_of db j
    \<longrightarrow> j = i \<and> status_of (fst (CancelAppointment db p i)) j = Some ''cancelled''
        \<and> (\<exists>a'. First (\<lambda>x. appt_ID x = i \<and> appt_PatientID x = p) (appointments db) = Some a'
               \<and> appt_Status a' \<noteq> ''cancelled''))
   \<and> (distinct (map appt_ID (appointments db)) \<and> a \<in> set (appointments db)
      \<and> appt_PatientID a \<noteq> p
    \<longrightarrow> CancelAppointment db p (appt_ID a)
          = (db, Response 404 (JObj [(''error'', JStr ''Appointment not found'')])))"
proof (intro conjI impI)
  assume h: "distinct (map appt_ID (appointments db)) \<and> a \<in> set (appointments db)
      \<and> First (\<lambda>d. doc_UserID d = u) (doctors db) = Some d \<and> appt_DoctorID a = doc_ID d
      \<and> b = Some s \<and> s \<in> {''confirmed'', ''cancelled'', ''completed''}"
  then have bs: "bind_status b = Some s" by (auto simp: bind_status_def)
  from h have f: "find (\<lambda>x. appt_ID x = appt_ID a) (appointments db) = Some a"
    by (intro find_unique_key[where k = appt_ID]) simp_all
  have n: "filter (\<lambda>x. appt_ID x = appt_ID a \<and> appt_DoctorID x = doc_ID d) (appointments db) \<noteq> []"
    using h by (auto simp: filter_empty_conv)
  have u: "UpdateAppointmentStatus e db u (appt_ID a) b
      = (fst (Update_status (\<lambda>x. appt_ID x = appt_ID a \<and> appt_DoctorID x = doc_ID d) s db),
         Response StatusOK (message_H ''Appointment status updated successfully''))"
    using h n bs by (simp add: UpdateAppointmentStatus_def Update_status_def)
  show "status_of (fst (UpdateAppointmentStatus e db u (appt_ID a) b)) (appt_ID a) = Some s"
    unfolding u using h by (simp add: status_of_Update_status f)
  show "snd (UpdateAppointmentStatus e db u (appt_ID a) b)
            = Response 200 (JObj [(''message'', JStr ''Appointment status updated successfully'')])"
    by (simp add: u StatusOK_def message_H_def)
next
  assume ch: "status_of (fst (UpdateAppointmentStatus e db u i b)) j \<noteq> status_of db j"
  obtain d' where d': "First (\<lambda>d. doc_UserID d = u) (doctors db) = Some d'"
    using ch by (cases "First (\<lambda>d. doc_UserID d = u) (doctors db)")
                (simp_all add: UpdateAppointmentStatus_fst)
  obtain s' where s': "bind_status b = Some s'"
    using ch d' by (cases "bind_status b") (simp_all add: UpdateAppointmentStatus_fst)
  have eq: "fst (UpdateAppointmentStatus e db u i b)
      = fst (Update_status (\<lambda>x. appt_ID x = i \<and> appt_DoctorID x = doc_ID d') s' db)"
    using d' s' by (simp add: UpdateAppointmentStatus_fst)
  from status_of_changed[OF ch[unfolded eq]]
  obtain a' where a': "find (\<lambda>x. appt_ID x = j) (appointments db) = Some a'"
      "appt_ID a' = i" "appt_DoctorID a' = doc_ID d'"
      "status_of (fst (Update_status (\<lambda>x. appt_ID x = i \<and> appt_DoctorID x = doc_ID d') s' db)) j
         = Some s'"
    by blast
  from find_key[OF a'(1)] a'(2) have ji: "j = i" by simp
  from bind_status_Some[OF s'] have b: "b = Some s'"
      "s' \<in> {StatusConfirmed, StatusCancelled, StatusCompleted}" by simp_all
  show "j = i" by (rule ji)
  show "b \<in> {Some ''confirmed'', Some ''cancelled'', Some ''completed''}"
    using b by (auto simp: StatusConfirmed_def StatusCancelled_def StatusCompleted_def)
  show "status_of (fst (UpdateAppointmentStatus e db u i b)) j = b"
    unfolding eq a'(4) by (simp add: b(1))
  show "\<exists>d' a'. First (\<lambda>d. doc_UserID d = u) (doctors db) = Some d'
                  \<and> find (\<lambda>x. appt_ID x = i) (appointments db) = Some a'
                  \<and> appt_DoctorID a' = doc_ID d'"
    using d' a'(1,3) ji by blast
next
  assume "First (\<lambda>d. doc_UserID d = u) (doctors db) = None"
  then show "UpdateAppointmentStatus e db u i b
          = (db, Response 404 (JObj [(''error'', JStr ''Doctor not found'')]))"
    by (simp add: UpdateAppointmentStatus_def StatusNotFound_def error_H_def)
next
  assume h: "First (\<lambda>d. doc_UserID d = u) (doctors db) = Some d
      \<and> b \<notin> {Some ''confirmed'', Some ''cancelled'', Some ''completed''}"
  then have "bind_status b = None"
    by (cases b) (auto simp: bind_status_def)
  with h show "UpdateAppointmentStatus e db u i b
      = (db, Response 400 (JObj [(''error'', JStr e)]))"
    by (simp add: UpdateAppointmentStatus_def StatusBadRequest_def error_H_def)
next
  assume h: "distinct (map appt_ID (appointments db)) \<and> a \<in> set (appointments db)
      \<and> First (\<lambda>d. doc_UserID d = u) (doctors db) = Some d \<and> appt_DoctorID a \<noteq> doc_ID d
      \<and> b \<in> {Some ''confirmed'', Some ''cancelled'', Some ''completed''}"
  then obtain s' where s': "bind_status b = Some s'"
    by (auto simp: bind_status_def)
  have "\<not> (appt_ID x = appt_ID a \<and> appt_DoctorID x = doc_ID d)"
    if "x \<in> set (appointments db)" for x
  proof
    assume c: "appt_ID x = appt_ID a \<and> appt_DoctorID x = doc_ID d"
    have "x = a" using h that c by (intro key_unique[where k = appt_ID and xs = "appointments db"]) simp_all
    with c h show False by simp
  qed
  then have "Update_status (\<lambda>x. appt_ID x = appt_ID a \<and> appt_DoctorID x = doc_ID d) s' db = (db, 0)"
    by (rule Update_status_none)
  with h s' show "UpdateAppointmentStatus e db u (appt_ID a) b
          = (db, Response 404 (JObj [(''error'', JStr ''Appointment not found'')]))"
    by (simp add: UpdateAppointmentStatus_def StatusNotFound_def error_H_def)
next
  assume h: "distinct (map appt_ID (appointments db)) \<and> a \<in> set (appointments db)
      \<and> appt_PatientID a = p \<and> appt_Status a = ''cancelled''"
  then have "find (\<lambda>x. appt_ID x = appt_ID a \<and> appt_PatientID x = p) (appointments db) = Some a"
    by (intro find_unique_key[where k = appt_ID]) simp_all
  with h show "CancelAppointment db p (appt_ID a)
          = (db, Response 400 (JObj [(''error'', JStr ''Appointment is already cancelled'')]))"
    by (simp add: CancelAppointment_def First_def StatusCancelled_def StatusBadRequest_def
          error_H_def)
next
  assume h: "distinct (map appt_ID (appointments db)) \<and> a \<in> set (appointments db)
      \<and> appt_PatientID a = p \<and> appt_Status a \<noteq> ''cancelled''"
  then have f: "find (\<lambda>x. appt_ID x = appt_ID a \<and> appt_PatientID x = p) (appointments db) = Some a"
    by (intro find_unique_key[where k = appt_ID]) simp_all
  from h have g: "find (\<lambda>x. appt_ID x = appt_ID a) (appointments db) = Some a"
    by (intro find_unique_key[where k = appt_ID]) simp_all
  from h f have c: "CancelAppointment db p (appt_ID a)
      = (fst (Update_status (\<lambda>x. appt_ID x = appt_ID a) StatusCancelled db),
         Response StatusOK (message_H ''Appointment cancelled successfully''))"
    by (simp add: CancelAppointment_def First_def StatusCancelled_def)
  show "status_of (fst (CancelAppointment db p (appt_ID a))) (appt_ID a) = Some ''cancelled''"
    by (simp add: c status_of_Update_status g StatusCancelled_def)
  show "snd (CancelAppointment db p (appt_ID a))
            = Response 200 (JObj [(''message'', JStr ''Appointment cancelled successfully'')])"
    by (simp add: c StatusOK_def message_H_def)
next
  assume ch: "status_of (fst (CancelAppointment db p i)) j \<noteq> status_of db j"
  obtain a' where a': "First (\<lambda>x. appt_ID x = i \<and> appt_PatientID x = p) (appointments db) = Some a'"
    using ch by (cases "First (\<lambda>x. appt_ID x = i \<and> appt_PatientID x = p) (appointments db)")
                (simp_all add: CancelAppointment_fst)
  have nc: "appt_Status a' \<noteq> StatusCancelled"
    using ch a' by (cases "appt_Status a' = StatusCancelled") (simp_all add: CancelAppointment_fst)
  have eq: "fst (CancelAppointment db p i)
      = fst (Update_status (\<lambda>x. appt_ID x = appt_ID a') StatusCancelled db)"
    using a' nc by (simp add: CancelAppointment_fst)
  have ia: "appt_ID a' = i"
    using find_holds[OF a'[unfolded First_def]] by simp
  from status_of_changed[OF ch[unfolded eq]]
  obtain x where x: "find (\<lambda>x. appt_ID x = j) (appointments db) = Some x" "appt_ID x = appt_ID a'"
      "status_of (fst (Update_status (\<lambda>x. appt_ID x = appt_ID a') StatusCancelled db)) j
         = Some StatusCancelled"
    by blast
  from find_key[OF x(1)] x(2) ia show "j = i" by simp
  show "status_of (fst (CancelAppointment db p i)) j = Some ''cancelled''"
    using x(3) by (simp add: eq StatusCancelled_def)
  show "\<exists>a'. First (\<lambda>x. appt_ID x = i \<and> appt_PatientID x = p) (appointments db) = Some a'
               \<and> appt_Status a' \<noteq> ''cancelled''"
    using a' nc by (auto simp: StatusCancelled_def)
next
  assume h: "distinct (map appt_ID (appointments db)) \<and> a \<in> set (appointments db)
      \<and> appt_PatientID a \<noteq> p"
  then have "find (\<lambda>x. appt_ID x = appt_ID a \<and> appt_PatientID x = p) (appointments db) = None"
    by (intro find_none_key[where k = appt_ID and a = a]) simp_all
  then show "CancelAppointment db p (appt_ID a)
          = (db, Response 404 (JObj [(''error'', JStr ''Appointment not found'')]))"
    by (simp add: CancelAppointment_def First_def StatusNotFound_def error_H_def)
qed

text \<open>
  The clauses above on the day with two doctors. Doctor 1 (user 2)
  sets the completed appointment 4 to confirmed; asking for appointment 2, of doctor 2, the
  doctor gets 404; with the status pending 400; the patient 3, who is no doctor, 404.
  Patient 3 cancels the completed appointment 4; patient 4 is refused the cancelled
  appointment 3; patient 3 does not find it. In each case every other status is as before.
\<close>

theorem lifecycle_status_updates_witness:
  "(distinct (map appt_ID (appointments db_day))
      \<and> appt_of 4 3 1 1736593200 ''completed'' \<in> set (appointments db_day)
      \<and> appt_of 2 3 2 1736501400 ''confirmed'' \<in> set (appointments db_day)
      \<and> appt_of 3 4 1 1736505000 ''cancelled'' \<in> set (appointments db_day)
      \<and> First (\<lambda>d. doc_UserID d = 2) (doctors db_day) = Some doctor1
      \<and> First (\<lambda>d. doc_UserID d = 3) (doctors db_day) = None)
   \<and> map (status_of (fst (UpdateAppointmentStatus ''e'' db_day 2 4 (Some ''confirmed'')))) [1, 2, 3, 4]
       = [Some ''pending'', Some ''confirmed'', Some ''cancelled'', Some ''confirmed'']
   \<and> UpdateAppointmentStatus ''e'' db_day 2 2 (Some ''completed'')
       = (db_day, Response 404 (JObj [(''error'', JStr ''Appointment not found'')]))
   \<and> UpdateAppointmentStatus ''e'' db_day 2 4 (Some ''pending'')
       = (db_day, Response 400 (JObj [(''error'', JStr ''e'')]))
   \<and> UpdateAppointmentStatus ''e'' db_day 3 4 (Some ''confirmed'')
       = (db_day, Response 404 (JObj [(''error'', JStr ''Doctor not found'')]))
   \<and> map (status_of (fst (CancelAppointment db_day 3 4))) [1, 2, 3, 4]
       = [Some ''pending'', Some ''confirmed'', Some ''cancelled'', Some ''cancelled'']
   \<and> CancelAppointment db_day 4 3
       = (db_day, Response 400 (JObj [(''error'', JStr ''Appointment is already cancelled'')]))
   \<and> CancelAppointment db_day 3 3
       = (db_day, Response 404 (JObj [(''error'', JStr ''Appointment not found'')]))"
proof -
  note ev = db_day_def appt_of_def doctor1_def doctor2_def First_def
  have hyp: "distinct (map appt_ID (appointments db_day))
      \<and> appt_of 4 3 1 1736593200 ''completed'' \<in> set (appointments db_day)
      \<and> appt_of 2 3 2 1736501400 ''confirmed'' \<in> set (appointments db_day)
      \<and> appt_of 3 4 1 1736505000 ''cancelled'' \<in> set (appointments db_day)
      \<and> First (\<lambda>d. doc_UserID d = 2) (doctors db_day) = Some doctor1
      \<and> First (\<lambda>d. doc_UserID d = 3) (doctors db_day) = None"
    by (simp add: ev)
  have st: "map (status_of db_day) [1, 2, 3, 4]
      = [Some ''pending'', Some ''confirmed'', Some ''cancelled'', Some ''completed'']"
    by (simp add: ev status_of_def)
  note own = lifecycle_status_updates
               [where db = db_day and a = "appt_of 4 3 1 1736593200 ''completed''" and u = 2
                  and d = doctor1 and b = "Some ''confirmed''" and s = "''confirmed''"
                  and e = "''e''" and p = 3 and i = 4]
  have u4: "status_of (fst (UpdateAppointmentStatus ''e'' db_day 2 4 (Some ''confirmed''))) 4
      = Some ''confirmed''"
    using own[THEN conjunct1] hyp by (simp add: appt_of_def doctor1_def)
  have uo: "status_of (fst (UpdateAppointmentStatus ''e'' db_day 2 4 (Some ''confirmed''))) j
      = status_of db_day j" if "j \<noteq> 4" for j
    using own[where j = j, THEN conjunct2, THEN conjunct1] that by blast
  have c4: "status_of (fst (CancelAppointment db_day 3 4)) 4 = Some ''cancelled''"
    using own[THEN conjunct2, THEN conjunct2, THEN conjunct2, THEN conjunct2, THEN conjunct2,
              THEN conjunct2, THEN conjunct1] hyp
    by (simp add: appt_of_def)
  have co: "status_of (fst (CancelAppointment db_day 3 4)) j = status_of db_day j"
    if "j \<noteq> 4" for j
    using own[where j = j, THEN conjunct2, THEN conjunct2, THEN conjunct2, THEN conjunct2,
              THEN conjunct2, THEN conjunct2, THEN conjunct2, THEN conjunct1] that
    by blast
  have u2: "UpdateAppointmentStatus ''e'' db_day 2 2 (Some ''completed'')
       = (db_day, Response 404 (JObj [(''error'', JStr ''Appointment not found'')]))"
    using lifecycle_status_updates
            [where db = db_day and a = "appt_of 2 3 2 1736501400 ''confirmed''" and u = 2
               and d = doctor1 and b = "Some ''completed''" and e = "''e''",
             THEN conjunct2, THEN conjunct2, THEN conjunct2, THEN conjunct2, THEN conjunct1]
          hyp
    by (simp add: appt_of_def doctor1_def)
  have up: "UpdateAppointmentStatus ''e'' db_day 2 4 (Some ''pending'')
       = (db_day, Response 400 (JObj [(''error'', JStr ''e'')]))"
    using lifecycle_status_updates
            [where db = db_day and u = 2 and d = doctor1 and b = "Some ''pending''"
               and e = "''e''" and i = 4,
             THEN conjunct2, THEN conjunct2, THEN conjunct2, THEN conjunct1]
          hyp
    by simp
  have un: "UpdateAppointmentStatus ''e'' db_day 3 4 (Some ''confirmed'')
       = (db_day, Response 404 (JObj [(''error'', JStr ''Doctor not found'')]))"
    using lifecycle_status_updates
            [where db = db_day and u = 3 and b = "Some ''confirmed''" and e = "''e''" and i = 4,
             THEN conjunct2, THEN conjunct2, THEN conjunct1]
          hyp
    by simp
  have c3: "CancelAppointment db_day 4 3
       = (db_day, Response 400 (JObj [(''error'', JStr ''Appointment is already cancelled'')]))"
    using lifecycle_status_updates
            [where db = db_day and a = "appt_of 3 4 1 1736505000 ''cancelled''" and p = 4,
             THEN conjunct2, THEN conjunct2, THEN conjunct2, THEN conjunct2, THEN conjunct2,
             THEN conjunct1]
          hyp
    by (simp add: appt_of_def)
  have cn: "CancelAppointment db_day 3 3
       = (db_day, Response 404 (JObj [(''error'', JStr ''Appointment not found'')]))"
    using lifecycle_status_updates
            [where db = db_day and a = "appt_of 3 4 1 1736505000 ''cancelled''" and p = 3,
             THEN conjunct2, THEN conjunct2, THEN conjunct2, THEN conjunct2, THEN conjunct2,
             THEN conjunct2, THEN conjunct2, THEN conjunct2]
          hyp
    by (simp add: appt_of_def)
  have us: "map (status_of (fst (UpdateAppointmentStatus ''e'' db_day 2 4 (Some ''confirmed''))))
                [1, 2, 3, 4]
       = [Some ''pending'', Some ''confirmed'', Some ''cancelled'', Some ''confirmed'']"
    using st u4 uo[of 1] uo[of 2] uo[of 3] by simp
  have cs: "map (status_of (fst (CancelAppointment db_day 3 4))) [1, 2, 3, 4]
       = [Some ''pending'', Some ''confirmed'', Some ''cancelled'', Some ''cancelled'']"
    using st c4 co[of 1] co[of 2] co[of 3] by simp
  show ?thesis
    by (rule conjI[OF hyp]) (intro conjI, (rule us u2 up un cs c3 cn)+)
qed

text \<open>
  Claim C1 as stated fails: the doctor (user 2) sets the cancelled appointment 1 to
  confirmed, and the patient (user 3) cancels the completed appointment 2.
\<close>

theorem lifecycle_counterexample:
  "status_of db_lifecycle 1 = Some StatusCancelled
   \<and> status_of (fst (UpdateAppointmentStatus [] db_lifecycle 2 1 (Some ''confirmed''))) 1
       = Some StatusConfirmed
   \<and> status_of db_lifecycle 2 = Some StatusCompleted
   \<and> status_of (fst (CancelAppointment db_lifecycle 3 2)) 2 = Some StatusCancelled"
  by (simp add: db_lifecycle_def appt_at_def doctor1_def status_of_def UpdateAppointmentStatus_def
      CancelAppointment_def First_def Update_status_def bind_status_def
      StatusCancelled_def StatusConfirmed_def StatusCompleted_def)

text \<open>
  Claim C5. The table's keys are unique and \<open>a\<close> is one of its appointments. If \<open>a\<close> is
  the patient's and already cancelled, the cancellation answers 400 and the whole
  database, so every field of \<open>a\<close>, is as before. If \<open>a\<close> is another patient's, the
  answer is 404, and the database is as before too.
\<close>

theorem cancel_refused:
  assumes "distinct (map appt_ID (appointments db))" and "a \<in> set (appointments db)"
  shows "(appt_PatientID a = p \<and> appt_Status a = StatusCancelled
            \<longrightarrow> CancelAppointment db p (appt_ID a)
                  = (db, Response StatusBadRequest (error_H ''Appointment is already cancelled'')))
         \<and> (appt_PatientID a \<noteq> p
            \<longrightarrow> CancelAppointment db p (appt_ID a)
                  = (db, Response StatusNotFound (error_H ''Appointment not found'')))"
proof (intro conjI impI)
  assume h: "appt_PatientID a = p \<and> appt_Status a = StatusCancelled"
  have "find (\<lambda>x. appt_ID x = appt_ID a \<and> appt_PatientID x = p) (appointments db) = Some a"
    using assms h by (intro find_unique_key[where k = appt_ID]) simp_all
  with h show "CancelAppointment db p (appt_ID a)
          = (db, Response StatusBadRequest (error_H ''Appointment is already cancelled''))"
    by (simp add: CancelAppointment_def First_def)
next
  assume h: "appt_PatientID a \<noteq> p"
  have "find (\<lambda>x. appt_ID x = appt_ID a \<and> appt_PatientID x = p) (appointments db) = None"
    using assms h by (intro find_none_key[where k = appt_ID and a = a]) simp_all
  then show "CancelAppointment db p (appt_ID a)
          = (db, Response StatusNotFound (error_H ''Appointment not found''))"
    by (simp add: CancelAppointment_def First_def)
qed

theorem cancel_refused_witness:
  "distinct (map appt_ID (appointments db_lifecycle))
   \<and> appt_at 1 1736499600 ''cancelled'' \<in> set (appointments db_lifecycle)
   \<and> appt_PatientID (appt_at 1 1736499600 ''cancelled'') = 3
   \<and> appt_Status (appt_at 1 1736499600 ''cancelled'') = StatusCancelled
   \<and> CancelAppointment db_lifecycle 3 1
       = (db_lifecycle, Response StatusBadRequest (error_H ''Appointment is already cancelled''))
   \<and> appt_PatientID (appt_at 1 1736499600 ''cancelled'') \<noteq> 4
   \<and> CancelAppointment db_lifecycle 4 1
       = (db_lifecycle, Response StatusNotFound (error_H ''Appointment not found''))"
  using cancel_refused [of db_lifecycle "appt_at 1 1736499600 ''cancelled''" 3]
        cancel_refused [of db_lifecycle "appt_at 1 1736499600 ''cancelled''" 4]
  by (simp add: db_lifecycle_def appt_at_def StatusCancelled_def)

section \<open>Booking\<close>

lemma First_None_iff: "First P xs = None \<longleftrightarrow> (\<forall>x\<in>set xs. \<not> P x)"
  by (auto simp: First_def find_None_iff)

lemma First_key_exists:
  "k \<in> f ` set xs \<Longrightarrow> \<exists>d. First (\<lambda>x. f x = k) xs = Some d"
proof -
  assume "k \<in> f ` set xs"
  then have "First (\<lambda>x. f x = k) xs \<noteq> None"
    by (simp add: First_None_iff image_iff) metis
  then show ?thesis by (simp add: option.exhaust_sel)
qed

lemma First_key_missing:
  "k \<notin> f ` set xs \<Longrightarrow> First (\<lambda>x. f x = k) xs = None"
  by (simp add: First_None_iff image_iff) metis

lemma foldr_max_ge: "x \<in> set ids \<Longrightarrow> x \<le> foldr max ids (0::nat)"
  by (induction ids) (auto simp: max_def)

lemma next_ID_fresh: "next_ID ids \<notin> set ids"
proof
  assume "next_ID ids \<in> set ids"
  then have "next_ID ids \<le> foldr max ids 0" by (rule foldr_max_ge)
  then show False by (simp add: next_ID_def)
qed

lemma bind_BookRequest_Some:
  "req_DoctorID r \<noteq> 0 \<Longrightarrow> req_ScheduledAt r \<noteq> zero_Time \<or> req_Location r \<noteq> UTC
   \<Longrightarrow> bind_BookRequest (Some r) = Some r"
  by (auto simp: bind_BookRequest_def)

text \<open>
  Claim C3. The booking handler checks, in this order, the binding of the body, the
  doctor and the slot, and answers the first failure; the database is returned as it was,
  so no row is inserted. A body that does not decode, or that leaves out \<open>doctor_id\<close> (the
  key 0) or \<open>scheduled_at\<close> (the zero time value: the instant 0001-01-01T00:00:00 in UTC),
  gives 400 with the binding error. A request that binds, for a doctor that is not in the
  table, gives 404. A request that binds, for a doctor in the table, where the table has
  an appointment of that doctor booked at exactly the requested instant (its date and its
  start time are that instant, as in every row the handler inserts), gives 409.
\<close>

theorem booking_failures:
  "(b = None
      \<longrightarrow> BookAppointment e db uid b = (db, Response 400 (JObj [(''error'', JStr e)])))
   \<and> (b = Some r
        \<and> (req_DoctorID r = 0 \<or> (req_ScheduledAt r = zero_Time \<and> req_Location r = UTC))
      \<longrightarrow> BookAppointment e db uid b = (db, Response 400 (JObj [(''error'', JStr e)])))
   \<and> (b = Some r \<and> req_DoctorID r \<noteq> 0
        \<and> (req_ScheduledAt r \<noteq> zero_Time \<or> req_Location r \<noteq> UTC)
        \<and> req_DoctorID r \<notin> doc_ID ` set (doctors db)
      \<longrightarrow> BookAppointment e db uid b
            = (db, Response 404 (JObj [(''error'', JStr ''Doctor not found'')])))
   \<and> (b = Some r \<and> req_DoctorID r \<noteq> 0
        \<and> (req_ScheduledAt r \<noteq> zero_Time \<or> req_Location r \<noteq> UTC)
        \<and> req_DoctorID r \<in> doc_ID ` set (doctors db)
        \<and> a \<in> set (appointments db) \<and> appt_DoctorID a = req_DoctorID r
        \<and> appt_AppointmentDate a = req_ScheduledAt r \<and> appt_StartTime a = req_ScheduledAt r
      \<longrightarrow> BookAppointment e db uid b
            = (db, Response 409
                     (JObj [(''error'', JStr ''Doctor is not available at the requested time'')])))"
proof (intro conjI impI)
  assume "b = None"
  then show "BookAppointment e db uid b = (db, Response 400 (JObj [(''error'', JStr e)]))"
    by (simp add: BookAppointment_def bind_BookRequest_def StatusBadRequest_def error_H_def)
next
  assume "b = Some r
        \<and> (req_DoctorID r = 0 \<or> (req_ScheduledAt r = zero_Time \<and> req_Location r = UTC))"
  then have "bind_BookRequest b = None" by (auto simp: bind_BookRequest_def)
  then show "BookAppointment e db uid b = (db, Response 400 (JObj [(''error'', JStr e)]))"
    by (simp add: BookAppointment_def StatusBadRequest_def error_H_def)
next
  assume h: "b = Some r \<and> req_DoctorID r \<noteq> 0
        \<and> (req_ScheduledAt r \<noteq> zero_Time \<or> req_Location r \<noteq> UTC)
        \<and> req_DoctorID r \<notin> doc_ID ` set (doctors db)"
  then have "bind_BookRequest b = Some r" by (simp add: bind_BookRequest_Some)
  moreover from h have "First (\<lambda>d. doc_ID d = req_DoctorID r) (doctors db) = None"
    by (simp add: First_key_missing)
  ultimately show "BookAppointment e db uid b
      = (db, Response 404 (JObj [(''error'', JStr ''Doctor not found'')]))"
    by (simp add: BookAppointment_def StatusNotFound_def error_H_def)
next
  assume h: "b = Some r \<and> req_DoctorID r \<noteq> 0
        \<and> (req_ScheduledAt r \<noteq> zero_Time \<or> req_Location r \<noteq> UTC)
        \<and> req_DoctorID r \<in> doc_ID ` set (doctors db)
        \<and> a \<in> set (appointments db) \<and> appt_DoctorID a = req_DoctorID r
        \<and> appt_AppointmentDate a = req_ScheduledAt r \<and> appt_StartTime a = req_ScheduledAt r"
  then have "bind_BookRequest b = Some r" by (simp add: bind_BookRequest_Some)
  moreover from h obtain d where "First (\<lambda>d. doc_ID d = req_DoctorID r) (doctors db) = Some d"
    using First_key_exists[of "req_DoctorID r" doc_ID "doctors db"] by blast
  moreover have "First (\<lambda>a. appt_DoctorID a = req_DoctorID r
                                \<and> appt_AppointmentDate a = req_ScheduledAt r
                                \<and> appt_StartTime a = req_ScheduledAt r)
                           (appointments db) \<noteq> None"
    using h by (simp add: First_None_iff) blast
  ultimately show "BookAppointment e db uid b
            = (db, Response 409
                     (JObj [(''error'', JStr ''Doctor is not available at the requested time'')]))"
    by (auto simp: BookAppointment_def StatusConflict_def error_H_def)
qed

text \<open>
  The failures on the day with two doctors: no body; the zero time in
  UTC; the same instant with a zone offset, which binds, for a doctor 999 that does not
  exist; and doctor 1 at 10:30, where the cancelled appointment 3 of another patient is.
\<close>

theorem booking_failures_witness:
  "BookAppointment ''bad body'' db_day 3 None
     = (db_day, Response 400 (JObj [(''error'', JStr ''bad body'')]))
   \<and> BookAppointment ''bad body'' db_day 3 (Some (request1 zero_Time))
     = (db_day, Response 400 (JObj [(''error'', JStr ''bad body'')]))
   \<and> BookAppointment ''bad body'' db_day 3
        (Some ((request1 zero_Time)\<lparr>req_DoctorID := 999, req_Location := Zone 3600\<rparr>))
     = (db_day, Response 404 (JObj [(''error'', JStr ''Doctor not found'')]))
   \<and> (appt_of 3 4 1 1736505000 ''cancelled'' \<in> set (appointments db_day)
      \<and> req_DoctorID (request1 1736505000) \<in> doc_ID ` set (doctors db_day))
   \<and> BookAppointment ''bad body'' db_day 3 (Some (request1 1736505000))
     = (db_day, Response 409
                  (JObj [(''error'', JStr ''Doctor is not available at the requested time'')]))"
proof -
  have n: "BookAppointment ''bad body'' db_day 3 None
     = (db_day, Response 400 (JObj [(''error'', JStr ''bad body'')]))"
    using booking_failures [where b = None and e = "''bad body''" and db = db_day and uid = 3,
                            THEN conjunct1]
    by simp
  have z: "BookAppointment ''bad body'' db_day 3 (Some (request1 zero_Time))
     = (db_day, Response 400 (JObj [(''error'', JStr ''bad body'')]))"
    using booking_failures [where b = "Some (request1 zero_Time)" and e = "''bad body''"
                              and db = db_day and uid = 3 and r = "request1 zero_Time",
                            THEN conjunct2, THEN conjunct1]
    by (simp add: request1_def)
  have d: "BookAppointment ''bad body'' db_day 3
        (Some ((request1 zero_Time)\<lparr>req_DoctorID := 999, req_Location := Zone 3600\<rparr>))
     = (db_day, Response 404 (JObj [(''error'', JStr ''Doctor not found'')]))"
    using booking_failures
            [where b = "Some ((request1 zero_Time)\<lparr>req_DoctorID := 999,
                                                   req_Location := Zone 3600\<rparr>)"
               and e = "''bad body''" and db = db_day and uid = 3
               and r = "(request1 zero_Time)\<lparr>req_DoctorID := 999, req_Location := Zone 3600\<rparr>",
             THEN conjunct2, THEN conjunct2, THEN conjunct1]
    by (simp add: request1_def db_day_def doctor1_def doctor2_def)
  have h: "appt_of 3 4 1 1736505000 ''cancelled'' \<in> set (appointments db_day)
      \<and> req_DoctorID (request1 1736505000) \<in> doc_ID ` set (doctors db_day)"
    by (simp add: request1_def db_day_def doctor1_def)
  have c: "BookAppointment ''bad body'' db_day 3 (Some (request1 1736505000))
     = (db_day, Response 409
                  (JObj [(''error'', JStr ''Doctor is not available at the requested time'')]))"
    using booking_failures
            [where b = "Some (request1 1736505000)" and e = "''bad body''" and db = db_day
               and uid = 3 and r = "request1 1736505000"
               and a = "appt_of 3 4 1 1736505000 ''cancelled''",
             THEN conjunct2, THEN conjunct2, THEN conjunct2]
          h
    by (simp add: request1_def appt_of_def zero_Time_def)
  show ?thesis
    by (rule conjI[OF n], rule conjI[OF z], rule conjI[OF d], rule conjI[OF h], rule c)
qed

text \<open>
  Claim C4. A request of an authenticated patient (a user of the table) that binds (both
  required members present), for a doctor in the table, with no appointment of that
  doctor whose date and start time are the requested instant (so, in particular, with no
  appointment of that doctor starting at that instant): the handler answers 201 with the
  new appointment, and the database is the old one with exactly that one row appended.
  The row has a key that no row had, the authenticated patient, the requested doctor and
  instant, the end 30 minutes (1800 seconds) later, the status pending and the request's
  notes.
\<close>

theorem booking_success:
  assumes "req_DoctorID r \<noteq> 0"
    and "req_ScheduledAt r \<noteq> zero_Time \<or> req_Location r \<noteq> UTC"
    and "req_DoctorID r \<in> doc_ID ` set (doctors db)"
    and "\<not> (\<exists>a\<in>set (appointments db).
              appt_DoctorID a = req_DoctorID r \<and> appt_AppointmentDate a = req_ScheduledAt r
              \<and> appt_StartTime a = req_ScheduledAt r)"
    and "uid \<in> user_ID ` set (users db)"
  shows "BookAppointment e db uid (Some r)
           = (db\<lparr>appointments := appointments db @
                   [\<lparr>appt_ID = next_ID (map appt_ID (appointments db)),
                     appt_PatientID = uid,
                     appt_DoctorID = req_DoctorID r,
                     appt_AppointmentDate = req_ScheduledAt r,
                     appt_StartTime = req_ScheduledAt r,
                     appt_EndTime = req_ScheduledAt r + 1800,
                     appt_Status = ''pending'',
                     appt_Reason = [],
                     appt_Notes = req_Notes r,
                     appt_IsFollowUp = False,
                     appt_FollowUpNotes = [],
                     appt_IsPaid = False,
                     appt_PaymentReference = [],
                     appt_CancellationReason = []\<rparr>]\<rparr>,
              Response 201
                (JObj [(''ID'', JNum (int (next_ID (map appt_ID (appointments db))))),
                       (''patient_id'', JNum (int uid)),
                       (''doctor_id'', JNum (int (req_DoctorID r))),
                       (''appointment_date'', JNum (req_ScheduledAt r)),
                       (''start_time'', JNum (req_ScheduledAt r)),
                       (''end_time'', JNum (req_ScheduledAt r + 1800)),
                       (''status'', JStr ''pending''),
                       (''reason'', JStr []),
                       (''notes'', JStr (req_Notes r)),
                       (''is_follow_up'', JBool False),
                       (''follow_up_notes'', JStr []),
                       (''is_paid'', JBool False),
                       (''payment_reference'', JStr []),
                       (''cancellation_reason'', JStr [])]))
         \<and> next_ID (map appt_ID (appointments db)) \<notin> appt_ID ` set (appointments db)"
proof -
  have b: "bind_BookRequest (Some r) = Some r"
    using assms(1,2) by (rule bind_BookRequest_Some)
  obtain d where d: "First (\<lambda>d. doc_ID d = req_DoctorID r) (doctors db) = Some d"
    using First_key_exists[OF assms(3)] by blast
  have c: "First (\<lambda>a. appt_DoctorID a = req_DoctorID r
                      \<and> appt_AppointmentDate a = req_ScheduledAt r
                      \<and> appt_StartTime a = req_ScheduledAt r) (appointments db) = None"
    using assms(4) by (auto simp: First_None_iff)
  have f: "next_ID (map appt_ID (appointments db)) \<notin> appt_ID ` set (appointments db)"
    using next_ID_fresh[of "map appt_ID (appointments db)"] by simp
  have k: "Create_Appointment db
             \<lparr>appt_ID = 0, appt_PatientID = uid, appt_DoctorID = req_DoctorID r,
              appt_AppointmentDate = req_ScheduledAt r, appt_StartTime = req_ScheduledAt r,
              appt_EndTime = req_ScheduledAt r + 1800, appt_Status = ''pending'',
              appt_Reason = [], appt_Notes = req_Notes r, appt_IsFollowUp = False,
              appt_FollowUpNotes = [], appt_IsPaid = False, appt_PaymentReference = [],
              appt_CancellationReason = []\<rparr>
           = Some (db\<lparr>appointments := appointments db @
                        [\<lparr>appt_ID = next_ID (map appt_ID (appointments db)),
                          appt_PatientID = uid, appt_DoctorID = req_DoctorID r,
                          appt_AppointmentDate = req_ScheduledAt r,
                          appt_StartTime = req_ScheduledAt r,
                          appt_EndTime = req_ScheduledAt r + 1800, appt_Status = ''pending'',
                          appt_Reason = [], appt_Notes = req_Notes r, appt_IsFollowUp = False,
                          appt_FollowUpNotes = [], appt_IsPaid = False,
                          appt_PaymentReference = [], appt_CancellationReason = []\<rparr>]\<rparr>,
                   \<lparr>appt_ID = next_ID (map appt_ID (appointments db)),
                    appt_PatientID = uid, appt_DoctorID = req_DoctorID r,
                    appt_AppointmentDate = req_ScheduledAt r,
                    appt_StartTime = req_ScheduledAt r,
                    appt_EndTime = req_ScheduledAt r + 1800, appt_Status = ''pending'',
                    appt_Reason = [], appt_Notes = req_Notes r, appt_IsFollowUp = False,
                    appt_FollowUpNotes = [], appt_IsPaid = False,
                    appt_PaymentReference = [], appt_CancellationReason = []\<rparr>)"
    using assms(3,5) by (simp add: Create_Appointment_def Let_def)
  show ?thesis
    by (rule conjI[OF _ f])
       (simp add: BookAppointment_def b d c k StatusCreated_def Appointment_json_def)
qed

text \<open>
  On the day with two doctors, patient 3 books doctor 1 at 09:30, the instant at which
  doctor 2 has an appointment: the answer is 201 and the table has the new row 5 after the
  four it had.
\<close>

theorem booking_success_witness:
  "(req_DoctorID (request1 1736501400) \<noteq> 0
    \<and> req_ScheduledAt (request1 1736501400) \<noteq> zero_Time
    \<and> req_DoctorID (request1 1736501400) \<in> doc_ID ` set (doctors db_day)
    \<and> appt_of 2 3 2 1736501400 ''confirmed'' \<in> set (appointments db_day)
    \<and> 3 \<in> user_ID ` set (users db_day))
   \<and> BookAppointment [] db_day 3 (Some (request1 1736501400))
       = (db_day\<lparr>appointments :=
                   [appt_of 1 3 1 1736499600 ''pending'',
                    appt_of 2 3 2 1736501400 ''confirmed'',
                    appt_of 3 4 1 1736505000 ''cancelled'',
                    appt_of 4 3 1 1736593200 ''completed'',
                    appt_of 5 3 1 1736501400 ''pending'']\<rparr>,
          Response 201
            (JObj [(''ID'', JNum 5),
                   (''patient_id'', JNum 3),
                   (''doctor_id'', JNum 1),
                   (''appointment_date'', JNum 1736501400),
                   (''start_time'', JNum 1736501400),
                   (''end_time'', JNum 1736503200),
                   (''status'', JStr ''pending''),
                   (''reason'', JStr []),
                   (''notes'', JStr ''checkup''),
                   (''is_follow_up'', JBool False),
                   (''follow_up_notes'', JStr []),
                   (''is_paid'', JBool False),
                   (''payment_reference'', JStr []),
                   (''cancellation_reason'', JStr [])]))"
proof -
  note ev = db_day_def request1_def appt_of_def doctor1_def doctor2_def zero_Time_def
    accounts_def account_def
  have h: "req_DoctorID (request1 1736501400) \<noteq> 0
    \<and> req_ScheduledAt (request1 1736501400) \<noteq> zero_Time
    \<and> req_DoctorID (request1 1736501400) \<in> doc_ID ` set (doctors db_day)
    \<and> appt_of 2 3 2 1736501400 ''confirmed'' \<in> set (appointments db_day)
    \<and> 3 \<in> user_ID ` set (users db_day)"
    by (simp add: ev)
  have free: "\<not> (\<exists>a\<in>set (appointments db_day).
              appt_DoctorID a = req_DoctorID (request1 1736501400)
              \<and> appt_AppointmentDate a = req_ScheduledAt (request1 1736501400)
              \<and> appt_StartTime a = req_ScheduledAt (request1 1736501400))"
    by (simp add: ev)
  have r: "BookAppointment [] db_day 3 (Some (request1 1736501400))
       = (db_day\<lparr>appointments :=
                   [appt_of 1 3 1 1736499600 ''pending'',
                    appt_of 2 3 2 1736501400 ''confirmed'',
                    appt_of 3 4 1 1736505000 ''cancelled'',
                    appt_of 4 3 1 1736593200 ''completed'',
                    appt_of 5 3 1 1736501400 ''pending'']\<rparr>,
          Response 201
            (JObj [(''ID'', JNum 5),
                   (''patient_id'', JNum 3),
                   (''doctor_id'', JNum 1),
                   (''appointment_date'', JNum 1736501400),
                   (''start_time'', JNum 1736501400),
                   (''end_time'', JNum 1736503200),
                   (''status'', JStr ''pending''),
                   (''reason'', JStr []),
                   (''notes'', JStr ''checkup''),
                   (''is_follow_up'', JBool False),
                   (''follow_up_notes'', JStr []),
                   (''is_paid'', JBool False),
                   (''payment_reference'', JStr []),
                   (''cancellation_reason'', JStr [])]))"
    using booking_success [where r = "request1 1736501400" and db = db_day and uid = 3
                             and e = "[]", THEN conjunct1] h free
    by (simp add: ev next_ID_def)
  show ?thesis by (rule conjI[OF h r])
qed

section \<open>Availability\<close>

lemma digit_val_digit_char:
  assumes "n < 10"
  shows "digit_val (digit_char n) = Some n"
proof -
  from assms have "n \<in> {0, 1, 2, 3, 4, 5, 6, 7, 8, 9}" by auto
  then show ?thesis by (auto simp: digit_val_def digit_char_def)
qed

lemma digit_char_inj: "n < 10 \<Longrightarrow> m < 10 \<Longrightarrow> digit_char n = digit_char m \<Longrightarrow> n = m"
  by (metis digit_val_digit_char option.inject)

lemma two_digits_inj:
  assumes "n < 100" and "m < 100" and "two_digits n = two_digits m"
  shows "n = m"
proof -
  have "n div 10 < 10" "m div 10 < 10" "n mod 10 < 10" "m mod 10 < 10"
    using assms(1,2) by simp_all
  moreover have "digit_char (n div 10) = digit_char (m div 10)"
    and "digit_char (n mod 10) = digit_char (m mod 10)"
    using assms(3) by (simp_all add: two_digits_def)
  ultimately have "n div 10 = m div 10" and "n mod 10 = m mod 10"
    by (simp_all add: digit_char_inj)
  then show ?thesis by (metis div_mult_mod_eq)
qed

lemma Hour_lt: "Hour t < 24"
proof -
  have "0 \<le> t mod 86400" "t mod 86400 < 86400" by simp_all
  then have "(t mod 86400) div 3600 < 24" by simp
  then show ?thesis by (simp add: Hour_def)
qed

lemma Minute_lt: "Minute t < 60"
proof -
  have "0 \<le> t mod 3600" "t mod 3600 < 3600" by simp_all
  then have "(t mod 3600) div 60 < 60" by simp
  then show ?thesis by (simp add: Minute_def)
qed

lemma Format_1504_label:
  assumes "h < 100" and "m < 100"
  shows "Format_1504 t = two_digits h @ '':'' @ two_digits m \<longleftrightarrow> Hour t = h \<and> Minute t = m"
proof -
  have e: "Format_1504 t = two_digits h @ '':'' @ two_digits m
      \<longleftrightarrow> two_digits (Hour t) = two_digits h \<and> two_digits (Minute t) = two_digits m"
    by (simp add: Format_1504_def two_digits_def)
  have "Hour t < 100" using Hour_lt[of t] by simp
  then have h: "two_digits (Hour t) = two_digits h \<longleftrightarrow> Hour t = h"
    using two_digits_inj[of "Hour t" h] assms(1) by blast
  have "Minute t < 100" using Minute_lt[of t] by simp
  then have m: "two_digits (Minute t) = two_digits m \<longleftrightarrow> Minute t = m"
    using two_digits_inj[of "Minute t" m] assms(2) by blast
  show ?thesis unfolding e h m ..
qed

lemma mod_3600_day: "(day * 86400 + c) mod 3600 = c mod (3600::int)"
proof -
  have "day * 86400 + c = c + (day * 24) * 3600" by simp
  then show ?thesis by (metis mod_mult_self1)
qed

lemma Format_1504_day: "Format_1504 (day * 86400 + c) = Format_1504 c"
  by (simp add: Format_1504_def Minute_def Hour_def mod_3600_day)

lemma time_slots:
  "gen_slots 30 (Date date 9) (Date date 17) = fixed_slots"
  by (simp add: gen_slots.simps Date_def Format_1504_day add.assoc)
     (simp add: Format_1504_def Hour_def Minute_def two_digits_def digit_char_def fixed_slots_def)

lemma slot_cases:
  "k < 16 \<Longrightarrow> k = 0 \<or> k = 1 \<or> k = 2 \<or> k = 3 \<or> k = 4 \<or> k = 5 \<or> k = 6 \<or> k = 7 \<or> k = 8 \<or> k = 9
     \<or> k = 10 \<or> k = 11 \<or> k = 12 \<or> k = 13 \<or> k = 14 \<or> k = (15::nat)"
  by arith

lemma fixed_slots_nth:
  assumes "k < 16"
  shows "fixed_slots ! k = two_digits (9 + k div 2) @ '':'' @ two_digits (30 * (k mod 2))"
  using slot_cases[OF assms]
  by (elim disjE) (simp_all add: fixed_slots_def two_digits_def digit_char_def)

lemma slot_label:
  assumes "k < 16"
  shows "Format_1504 (Date date 9 + int k * (30 * 60)) = fixed_slots ! k"
proof -
  have "Format_1504 (Date date 9 + int k * (30 * 60)) = Format_1504 (32400 + int k * 1800)"
    by (simp add: Date_def Format_1504_day add.assoc)
  also have "\<dots> = fixed_slots ! k"
    using slot_cases[OF assms]
    by (elim disjE)
       (simp_all add: Format_1504_def Hour_def Minute_def two_digits_def digit_char_def
          fixed_slots_def)
  finally show ?thesis .
qed

lemma fixed_slots_length: "length fixed_slots = 16"
  by (simp add: fixed_slots_def)

lemma fixed_slots_distinct: "distinct fixed_slots"
  by (simp add: fixed_slots_def)

lemma bookedSlots_fold:
  "fold (\<lambda>appt m. m(Format_1504 (appt_StartTime appt) := True)) bs m0 s
   \<longleftrightarrow> m0 s \<or> s \<in> Format_1504 ` appt_StartTime ` set bs"
  by (induction bs arbitrary: m0) auto

lemma bookedSlots_iff:
  "bookedSlots bs s \<longleftrightarrow> s \<in> Format_1504 ` appt_StartTime ` set bs"
  by (simp add: bookedSlots_def bookedSlots_fold)

lemma availableSlots_eq:
  "availableSlots db doctorID date
   = filter (\<lambda>slot. slot \<notin> Format_1504 ` appt_StartTime ` set (bookedAppointments db doctorID date))
            fixed_slots"
  by (simp add: availableSlots_def time_slots bookedSlots_iff)

lemma length_filter_notin:
  assumes "distinct xs"
  shows "length (filter (\<lambda>x. x \<notin> B) xs) = length xs - card (set xs \<inter> B)"
proof -
  have "length (filter (\<lambda>x. x \<in> B) xs) = card (set xs \<inter> B)"
    using assms by (simp add: distinct_length_filter Int_commute Collect_mem_eq)
  moreover have "length (filter (\<lambda>x. x \<in> B) xs) + length (filter (\<lambda>x. x \<notin> B) xs) = length xs"
    by (rule sum_length_filter_compl)
  ultimately show ?thesis by simp
qed

lemma GetDoctorAvailability_ok:
  assumes "parse_date dateStr = Some date" and "doctorID \<in> doc_ID ` set (doctors db)"
  shows "GetDoctorAvailability db doctorID dateStr
         = Response StatusOK
             (JObj [(''doctor_id'', JStr (decimal doctorID)),
                    (''date'', JStr dateStr),
                    (''available_slots'', JArr (map JStr (availableSlots db doctorID date)))])"
proof -
  obtain d where "First (\<lambda>d. doc_ID d = doctorID) (doctors db) = Some d"
    using First_key_exists[OF assms(2)] by blast
  then show ?thesis by (simp add: GetDoctorAvailability_def assms(1))
qed

lemma slot_start_label:
  assumes "\<exists>k<16. t = Date date 9 + int k * (30 * 60)"
  shows "Format_1504 t \<in> set fixed_slots"
proof -
  from assms obtain k where k: "k < 16" and t: "t = Date date 9 + int k * (30 * 60)" by blast
  have "Format_1504 t = fixed_slots ! k" unfolding t by (rule slot_label[OF k])
  then show ?thesis using k by (simp add: fixed_slots_length)
qed

lemma slot_start_inj:
  assumes "\<exists>k<16. t = Date date 9 + int k * (30 * 60)"
    and "\<exists>k<16. t' = Date date 9 + int k * (30 * 60)"
    and "Format_1504 t = Format_1504 t'"
  shows "t = t'"
proof -
  from assms(1) obtain k where k: "k < 16" and t: "t = Date date 9 + int k * (30 * 60)" by blast
  from assms(2) obtain k' where k': "k' < 16" and t': "t' = Date date 9 + int k' * (30 * 60)" by blast
  have "fixed_slots ! k = fixed_slots ! k'"
    using assms(3) slot_label[OF k, of date] slot_label[OF k', of date] by (simp add: t t')
  then have "k = k'"
    using k k' fixed_slots_distinct by (simp add: nth_eq_iff_index_eq fixed_slots_length)
  then show ?thesis by (simp add: t t')
qed

lemma booked_iff:
  "slot \<in> Format_1504 ` appt_StartTime ` set (bookedAppointments db doctorID date)
   \<longleftrightarrow> (\<exists>a\<in>set (appointments db).
          appt_DoctorID a = doctorID \<and> DATE (appt_AppointmentDate a) = date
          \<and> Format_1504 (appt_StartTime a) = slot)"
  by (auto simp: bookedAppointments_def)

lemma availableSlots_explicit:
  "availableSlots db doctorID date
   = filter (\<lambda>slot. \<not> (\<exists>a\<in>set (appointments db).
                          appt_DoctorID a = doctorID \<and> DATE (appt_AppointmentDate a) = date
                          \<and> Format_1504 (appt_StartTime a) = slot))
            fixed_slots"
  by (simp only: availableSlots_eq booked_iff)

lemma booked_labels:
  "set fixed_slots \<inter> Format_1504 ` appt_StartTime ` set (bookedAppointments db doctorID date)
   = {slot \<in> set fixed_slots.
        \<exists>a\<in>set (appointments db).
          appt_DoctorID a = doctorID \<and> DATE (appt_AppointmentDate a) = date
          \<and> Format_1504 (appt_StartTime a) = slot}"
  using booked_iff[of _ db doctorID date] by blast

text \<open>
  Claim C2, as the handler has it. For a doctor in the table and a date that parses, the
  answer is 200 with the slots of the fixed window (09:00, 09:30, ..., 16:30) in that
  order, without those whose label \<open>HH:MM\<close> is the label of the start time of an
  appointment in the table that has that doctor and whose appointment date falls on that
  day; the appointments of other doctors and of other days remove nothing. A start time
  has the label of slot \<open>k\<close> exactly when its hour and minute are the slot's: the seconds
  are not compared. The number of slots returned is 16 less the number of distinct slot
  labels so marked; hence, when the doctor's appointments of the day all start at slot
  starts and at different instants, it is 16 less their number.
\<close>

theorem availability_slots:
  assumes "parse_date dateStr = Some date" and "doctorID \<in> doc_ID ` set (doctors db)"
  shows "GetDoctorAvailability db doctorID dateStr
         = Response 200
             (JObj [(''doctor_id'', JStr (decimal doctorID)),
                    (''date'', JStr dateStr),
                    (''available_slots'',
                     JArr (map JStr
                       (filter (\<lambda>slot. \<not> (\<exists>a\<in>set (appointments db).
                                   appt_DoctorID a = doctorID
                                   \<and> DATE (appt_AppointmentDate a) = date
                                   \<and> Format_1504 (appt_StartTime a) = slot))
                          [''09:00'', ''09:30'', ''10:00'', ''10:30'', ''11:00'', ''11:30'',
                           ''12:00'', ''12:30'', ''13:00'', ''13:30'', ''14:00'', ''14:30'',
                           ''15:00'', ''15:30'', ''16:00'', ''16:30''])))])
       \<and> (\<forall>t k. k < 16 \<longrightarrow>
             (Format_1504 t = fixed_slots ! k
              \<longleftrightarrow> Hour t = 9 + k div 2 \<and> Minute t = 30 * (k mod 2)))
       \<and> length (filter (\<lambda>slot. \<not> (\<exists>a\<in>set (appointments db).
                                   appt_DoctorID a = doctorID
                                   \<and> DATE (appt_AppointmentDate a) = date
                                   \<and> Format_1504 (appt_StartTime a) = slot))
                        fixed_slots)
         = 16 - card {slot \<in> set fixed_slots.
                        \<exists>a\<in>set (appointments db).
                          appt_DoctorID a = doctorID \<and> DATE (appt_AppointmentDate a) = date
                          \<and> Format_1504 (appt_StartTime a) = slot}
       \<and> ((\<forall>a\<in>set (appointments db).
              appt_DoctorID a = doctorID \<and> DATE (appt_AppointmentDate a) = date
              \<longrightarrow> (\<exists>k<16. appt_StartTime a = date * 86400 + 9 * 3600 + int k * 1800))
           \<and> distinct (map appt_StartTime
                          (filter (\<lambda>a. appt_DoctorID a = doctorID
                                       \<and> DATE (appt_AppointmentDate a) = date)
                                  (appointments db)))
          \<longrightarrow> length (filter (\<lambda>slot. \<not> (\<exists>a\<in>set (appointments db).
                                   appt_DoctorID a = doctorID
                                   \<and> DATE (appt_AppointmentDate a) = date
                                   \<and> Format_1504 (appt_StartTime a) = slot))
                        fixed_slots)
              = 16 - length (filter (\<lambda>a. appt_DoctorID a = doctorID
                                          \<and> DATE (appt_AppointmentDate a) = date)
                                    (appointments db)))"
proof (intro conjI allI impI)
  show "GetDoctorAvailability db doctorID dateStr
         = Response 200
             (JObj [(''doctor_id'', JStr (decimal doctorID)),
                    (''date'', JStr dateStr),
                    (''available_slots'',
                     JArr (map JStr
                       (filter (\<lambda>slot. \<not> (\<exists>a\<in>set (appointments db).
                                   appt_DoctorID a = doctorID
                                   \<and> DATE (appt_AppointmentDate a) = date
                                   \<and> Format_1504 (appt_StartTime a) = slot))
                          [''09:00'', ''09:30'', ''10:00'', ''10:30'', ''11:00'', ''11:30'',
                           ''12:00'', ''12:30'', ''13:00'', ''13:30'', ''14:00'', ''14:30'',
                           ''15:00'', ''15:30'', ''16:00'', ''16:30''])))])"
    by (simp only: GetDoctorAvailability_ok[OF assms] availableSlots_explicit StatusOK_def
          fixed_slots_def)
next
  fix t k
  assume k: "k < (16::nat)"
  have "9 + k div 2 < 100" and "30 * (k mod 2) < 100" using k by simp_all
  then show "Format_1504 t = fixed_slots ! k
              \<longleftrightarrow> Hour t = 9 + k div 2 \<and> Minute t = 30 * (k mod 2)"
    by (simp only: fixed_slots_nth[OF k] Format_1504_label)
next
  show "length (filter (\<lambda>slot. \<not> (\<exists>a\<in>set (appointments db).
                                   appt_DoctorID a = doctorID
                                   \<and> DATE (appt_AppointmentDate a) = date
                                   \<and> Format_1504 (appt_StartTime a) = slot))
                        fixed_slots)
         = 16 - card {slot \<in> set fixed_slots.
                        \<exists>a\<in>set (appointments db).
                          appt_DoctorID a = doctorID \<and> DATE (appt_AppointmentDate a) = date
                          \<and> Format_1504 (appt_StartTime a) = slot}"
    by (simp only: availableSlots_explicit[symmetric] booked_labels[symmetric]
          availableSlots_eq length_filter_notin[OF fixed_slots_distinct] fixed_slots_length)
next
  let ?B = "bookedAppointments db doctorID date"
  let ?S = "appt_StartTime ` set ?B"
  assume h: "(\<forall>a\<in>set (appointments db).
              appt_DoctorID a = doctorID \<and> DATE (appt_AppointmentDate a) = date
              \<longrightarrow> (\<exists>k<16. appt_StartTime a = date * 86400 + 9 * 3600 + int k * 1800))
           \<and> distinct (map appt_StartTime
                          (filter (\<lambda>a. appt_DoctorID a = doctorID
                                       \<and> DATE (appt_AppointmentDate a) = date)
                                  (appointments db)))"
  have B: "filter (\<lambda>a. appt_DoctorID a = doctorID \<and> DATE (appt_AppointmentDate a) = date)
                  (appointments db) = ?B"
    by (simp add: bookedAppointments_def)
  from h have slot: "\<And>t. t \<in> ?S \<Longrightarrow> \<exists>k<16. t = Date date 9 + int k * (30 * 60)"
    by (auto simp: bookedAppointments_def Date_def)
  from h have dist: "distinct (map appt_StartTime ?B)"
    by (simp add: bookedAppointments_def)
  have sub: "Format_1504 ` ?S \<subseteq> set fixed_slots"
  proof
    fix s assume "s \<in> Format_1504 ` ?S"
    then obtain t where t: "t \<in> ?S" and s: "s = Format_1504 t" by blast
    show "s \<in> set fixed_slots" unfolding s by (rule slot_start_label[OF slot[OF t]])
  qed
  have inj: "inj_on Format_1504 ?S"
  proof (rule inj_onI)
    fix t t' assume "t \<in> ?S" and "t' \<in> ?S" and "Format_1504 t = Format_1504 t'"
    then show "t = t'" using slot_start_inj[OF slot slot] by blast
  qed
  have "card (set fixed_slots \<inter> Format_1504 ` ?S) = card (Format_1504 ` ?S)"
    using sub by (simp add: Int_absorb1)
  also have "\<dots> = card ?S" by (rule card_image[OF inj])
  also have "\<dots> = length ?B"
    using dist distinct_card[of "map appt_StartTime ?B"] by simp
  finally have "length (availableSlots db doctorID date) = 16 - length ?B"
    by (simp only: availableSlots_eq length_filter_notin[OF fixed_slots_distinct]
          fixed_slots_length)
  then show "length (filter (\<lambda>slot. \<not> (\<exists>a\<in>set (appointments db).
                                   appt_DoctorID a = doctorID
                                   \<and> DATE (appt_AppointmentDate a) = date
                                   \<and> Format_1504 (appt_StartTime a) = slot))
                        fixed_slots)
              = 16 - length (filter (\<lambda>a. appt_DoctorID a = doctorID
                                          \<and> DATE (appt_AppointmentDate a) = date)
                                    (appointments db))"
    by (simp only: availableSlots_explicit B)
qed

lemma parse_date_example: "parse_date ''2025-01-10'' = Some 20098"
  by (simp add: parse_date_def digit_val_def days_from_civil_def daysIn_def isLeap_def)

lemma decimal_1: "decimal 1 = ''1''"
  by (simp add: decimal.simps digit_char_def)

text \<open>
  On 2025-01-10 (day 20098), of the four appointments of the table two are of doctor 1 on
  that day, at 09:00 and at 10:30; the one of doctor 2 at 09:30 and the one of the next
  day at 11:00 remove nothing. Doctor 1 has 14 slots.
\<close>

theorem availability_slots_witness:
  "(parse_date ''2025-01-10'' = Some 20098
    \<and> 1 \<in> doc_ID ` set (doctors db_day)
    \<and> length (appointments db_day) = 4
    \<and> filter (\<lambda>a. appt_DoctorID a = 1 \<and> DATE (appt_AppointmentDate a) = 20098)
             (appointments db_day)
        = [appt_of 1 3 1 1736499600 ''pending'', appt_of 3 4 1 1736505000 ''cancelled'']
    \<and> (1736499600::int) = 20098 * 86400 + 9 * 3600 + int 0 * 1800
    \<and> (1736505000::int) = 20098 * 86400 + 9 * 3600 + int 3 * 1800)
   \<and> GetDoctorAvailability db_day 1 ''2025-01-10''
       = Response 200
           (JObj [(''doctor_id'', JStr ''1''),
                  (''date'', JStr ''2025-01-10''),
                  (''available_slots'',
                   JArr [JStr ''09:30'', JStr ''10:00'', JStr ''11:00'', JStr ''11:30'',
                         JStr ''12:00'', JStr ''12:30'', JStr ''13:00'', JStr ''13:30'',
                         JStr ''14:00'', JStr ''14:30'', JStr ''15:00'', JStr ''15:30'',
                         JStr ''16:00'', JStr ''16:30''])])
   \<and> length (filter (\<lambda>slot. \<not> (\<exists>a\<in>set (appointments db_day).
                                   appt_DoctorID a = 1
                                   \<and> DATE (appt_AppointmentDate a) = 20098
                                   \<and> Format_1504 (appt_StartTime a) = slot))
                    fixed_slots) = 16 - 2"
proof -
  note ev = db_day_def appt_of_def doctor1_def doctor2_def DATE_def
  note fmt = Format_1504_def Hour_def Minute_def two_digits_def digit_char_def
  have d: "1 \<in> doc_ID ` set (doctors db_day)"
    by (simp add: ev)
  have n: "length (appointments db_day) = 4"
    by (simp add: ev)
  have b: "filter (\<lambda>a. appt_DoctorID a = 1 \<and> DATE (appt_AppointmentDate a) = 20098)
             (appointments db_day)
        = [appt_of 1 3 1 1736499600 ''pending'', appt_of 3 4 1 1736505000 ''cancelled'']"
    by (simp add: ev)
  have s0: "(1736499600::int) = 20098 * 86400 + 9 * 3600 + int 0 * 1800" by simp
  have s3: "(1736505000::int) = 20098 * 86400 + 9 * 3600 + int 3 * 1800" by simp
  have h: "parse_date ''2025-01-10'' = Some 20098
    \<and> 1 \<in> doc_ID ` set (doctors db_day)
    \<and> length (appointments db_day) = 4
    \<and> filter (\<lambda>a. appt_DoctorID a = 1 \<and> DATE (appt_AppointmentDate a) = 20098)
             (appointments db_day)
        = [appt_of 1 3 1 1736499600 ''pending'', appt_of 3 4 1 1736505000 ''cancelled'']
    \<and> (1736499600::int) = 20098 * 86400 + 9 * 3600 + int 0 * 1800
    \<and> (1736505000::int) = 20098 * 86400 + 9 * 3600 + int 3 * 1800"
    by (intro conjI) (rule parse_date_example d n b s0 s3)+
  note t = availability_slots [OF parse_date_example d]
  have r: "GetDoctorAvailability db_day 1 ''2025-01-10''
       = Response 200
           (JObj [(''doctor_id'', JStr ''1''),
                  (''date'', JStr ''2025-01-10''),
                  (''available_slots'',
                   JArr [JStr ''09:30'', JStr ''10:00'', JStr ''11:00'', JStr ''11:30'',
                         JStr ''12:00'', JStr ''12:30'', JStr ''13:00'', JStr ''13:30'',
                         JStr ''14:00'', JStr ''14:30'', JStr ''15:00'', JStr ''15:30'',
                         JStr ''16:00'', JStr ''16:30''])])"
    unfolding t[THEN conjunct1] decimal_1 by (simp add: ev fmt)
  have slots: "\<forall>a\<in>set (appointments db_day).
              appt_DoctorID a = 1 \<and> DATE (appt_AppointmentDate a) = 20098
              \<longrightarrow> (\<exists>k<16. appt_StartTime a = 20098 * 86400 + 9 * 3600 + int k * 1800)"
  proof (intro ballI impI)
    fix a assume "a \<in> set (appointments db_day)"
      and "appt_DoctorID a = 1 \<and> DATE (appt_AppointmentDate a) = 20098"
    then have "a \<in> set (filter (\<lambda>a. appt_DoctorID a = 1
                                      \<and> DATE (appt_AppointmentDate a) = 20098)
                                (appointments db_day))"
      by simp
    then have "appt_StartTime a = 1736499600 \<or> appt_StartTime a = 1736505000"
      unfolding b by (auto simp: appt_of_def)
    then show "\<exists>k<16. appt_StartTime a = 20098 * 86400 + 9 * 3600 + int k * 1800"
    proof
      assume "appt_StartTime a = 1736499600"
      then show ?thesis by (intro exI[of _ 0]) simp
    next
      assume "appt_StartTime a = 1736505000"
      then show ?thesis by (intro exI[of _ 3]) simp
    qed
  qed
  have dist: "distinct (map appt_StartTime
                          (filter (\<lambda>a. appt_DoctorID a = 1
                                       \<and> DATE (appt_AppointmentDate a) = 20098)
                                  (appointments db_day)))"
    unfolding b by (simp add: appt_of_def)
  from t[THEN conjunct2, THEN conjunct2, THEN conjunct2] slots dist
  have "length (filter (\<lambda>slot. \<not> (\<exists>a\<in>set (appointments db_day).
                                   appt_DoctorID a = 1
                                   \<and> DATE (appt_AppointmentDate a) = 20098
                                   \<and> Format_1504 (appt_StartTime a) = slot))
                    fixed_slots)
        = 16 - length (filter (\<lambda>a. appt_DoctorID a = 1
                                    \<and> DATE (appt_AppointmentDate a) = 20098)
                              (appointments db_day))"
    by blast
  then have l: "length (filter (\<lambda>slot. \<not> (\<exists>a\<in>set (appointments db_day).
                                   appt_DoctorID a = 1
                                   \<and> DATE (appt_AppointmentDate a) = 20098
                                   \<and> Format_1504 (appt_StartTime a) = slot))
                    fixed_slots) = 16 - 2"
    unfolding b by simp
  show ?thesis
    by (rule conjI[OF h], rule conjI[OF r], rule l)
qed

text \<open>
  Claim C2 as stated fails. On 2025-01-10 doctor 1 has one appointment, at 09:00:30, which
  is the start of no slot; doctor 2 has one at 09:30:00. No slot's start time exactly
  matches a start time of an appointment of doctor 1, so the claim gives doctor 1 all 16
  slots; the handler leaves out 09:00 and returns 15, 09:30 among them.
\<close>

theorem availability_exact_match_counterexample:
  "parse_date ''2025-01-10'' = Some 20098
   \<and> map (\<lambda>a. (appt_DoctorID a, appt_StartTime a)) (appointments db_seconds)
       = [(1, 1736499630), (2, 1736501400)]
   \<and> 1736499630 \<notin> set (map (\<lambda>k. 20098 * 86400 + 9 * 3600 + int k * 1800) [0..<16])
   \<and> GetDoctorAvailability db_seconds 1 ''2025-01-10''
       = Response 200
           (JObj [(''doctor_id'', JStr ''1''),
                  (''date'', JStr ''2025-01-10''),
                  (''available_slots'',
                   JArr [JStr ''09:30'', JStr ''10:00'', JStr ''10:30'', JStr ''11:00'',
                         JStr ''11:30'', JStr ''12:00'', JStr ''12:30'', JStr ''13:00'',
                         JStr ''13:30'', JStr ''14:00'', JStr ''14:30'', JStr ''15:00'',
                         JStr ''15:30'', JStr ''16:00'', JStr ''16:30''])])"
proof -
  note ev = db_seconds_def appt_of_def doctor1_def doctor2_def DATE_def
  note fmt = Format_1504_def Hour_def Minute_def two_digits_def digit_char_def
  have d: "1 \<in> doc_ID ` set (doctors db_seconds)"
    by (simp add: ev)
  have m: "map (\<lambda>a. (appt_DoctorID a, appt_StartTime a)) (appointments db_seconds)
       = [(1, 1736499630), (2, 1736501400)]"
    by (simp add: ev)
  have n: "1736499630 \<notin> set (map (\<lambda>k. 20098 * 86400 + 9 * 3600 + int k * 1800) [0..<16])"
    by (simp add: upt_rec[of _ "numeral n" for n] upt_rec[of _ "Suc n" for n])
  have r: "GetDoctorAvailability db_seconds 1 ''2025-01-10''
       = Response 200
           (JObj [(''doctor_id'', JStr ''1''),
                  (''date'', JStr ''2025-01-10''),
                  (''available_slots'',
                   JArr [JStr ''09:30'', JStr ''10:00'', JStr ''10:30'', JStr ''11:00'',
                         JStr ''11:30'', JStr ''12:00'', JStr ''12:30'', JStr ''13:00'',
                         JStr ''13:30'', JStr ''14:00'', JStr ''14:30'', JStr ''15:00'',
                         JStr ''15:30'', JStr ''16:00'', JStr ''16:30''])])"
    unfolding GetDoctorAvailability_ok[OF parse_date_example d] availableSlots_explicit decimal_1
    by (simp add: ev fmt fixed_slots_def StatusOK_def)
  show ?thesis
    by (intro conjI) (rule parse_date_example m n r)+
qed
section \<open>A cancelled appointment keeps its slot\<close>

lemma find_map_same:
  assumes "\<And>x. P (g x) = P x"
  shows "find P (map g xs) = map_option g (find P xs)"
  by (induction xs) (simp_all add: assms)

lemma bookedAppointments_restatus:
  "bookedAppointments (db\<lparr>appointments := map (\<lambda>x. x\<lparr>appt_Status := f x\<rparr>) (appointments db)\<rparr>)
     doctorID date
   = map (\<lambda>x. x\<lparr>appt_Status := f x\<rparr>) (bookedAppointments db doctorID date)"
  by (simp add: bookedAppointments_def filter_map comp_def)

lemma availableSlots_restatus:
  "availableSlots (db\<lparr>appointments := map (\<lambda>x. x\<lparr>appt_Status := f x\<rparr>) (appointments db)\<rparr>)
     doctorID date
   = availableSlots db doctorID date"
  by (simp add: availableSlots_eq bookedAppointments_restatus image_image)

lemma BookAppointment_restatus:
  "snd (BookAppointment e
          (db\<lparr>appointments := map (\<lambda>x. x\<lparr>appt_Status := f x\<rparr>) (appointments db)\<rparr>) uid b)
   = snd (BookAppointment e db uid b)"
proof -
  let ?g = "\<lambda>x. x\<lparr>appt_Status := f x\<rparr>"
  have c: "\<And>r. First (\<lambda>a. appt_DoctorID a = req_DoctorID r
                      \<and> appt_AppointmentDate a = req_ScheduledAt r
                      \<and> appt_StartTime a = req_ScheduledAt r) (map ?g (appointments db))
        = map_option ?g (First (\<lambda>a. appt_DoctorID a = req_DoctorID r
                      \<and> appt_AppointmentDate a = req_ScheduledAt r
                      \<and> appt_StartTime a = req_ScheduledAt r) (appointments db))"
    unfolding First_def by (rule find_map_same) simp
  show ?thesis
    by (simp add: BookAppointment_def c Create_Appointment_def Let_def comp_def
             split: option.splits)
qed

text \<open>
  Claim C9. Let \<open>a\<close> be a cancelled appointment of a doctor in the table, booked at an
  instant (its date and its start time are that instant). The availability of that doctor
  on that day is answered with 200 and does not list the label of the instant, and a
  bound request to book the doctor at exactly that instant is answered with 409 and
  changes nothing. Neither handler reads the status: rewriting the status of every
  appointment in any way changes neither the available slots nor the response to a
  booking.
\<close>

theorem cancelled_still_occupies:
  assumes "a \<in> set (appointments db)" and "appt_Status a = StatusCancelled"
    and "appt_DoctorID a = doctorID" and "doctorID \<in> doc_ID ` set (doctors db)"
    and "appt_AppointmentDate a = appt_StartTime a"
    and "parse_date dateStr = Some (DATE (appt_StartTime a))"
  shows "GetDoctorAvailability db doctorID dateStr
         = Response StatusOK
             (JObj [(''doctor_id'', JStr (decimal doctorID)),
                    (''date'', JStr dateStr),
                    (''available_slots'',
                     JArr (map JStr (availableSlots db doctorID (DATE (appt_StartTime a)))))])
       \<and> Format_1504 (appt_StartTime a)
           \<notin> set (availableSlots db doctorID (DATE (appt_StartTime a)))
       \<and> (req_DoctorID r = doctorID \<and> req_ScheduledAt r = appt_StartTime a
           \<and> req_DoctorID r \<noteq> 0 \<and> req_ScheduledAt r \<noteq> zero_Time
          \<longrightarrow> BookAppointment e db uid (Some r)
              = (db, Response StatusConflict
                       (error_H ''Doctor is not available at the requested time'')))
       \<and> availableSlots
            (db\<lparr>appointments := map (\<lambda>x. x\<lparr>appt_Status := f x\<rparr>) (appointments db)\<rparr>)
            doctorID date
          = availableSlots db doctorID date
       \<and> snd (BookAppointment e
                (db\<lparr>appointments := map (\<lambda>x. x\<lparr>appt_Status := f x\<rparr>) (appointments db)\<rparr>)
                uid b)
          = snd (BookAppointment e db uid b)"
proof (intro conjI impI)
  show "GetDoctorAvailability db doctorID dateStr
         = Response StatusOK
             (JObj [(''doctor_id'', JStr (decimal doctorID)),
                    (''date'', JStr dateStr),
                    (''available_slots'',
                     JArr (map JStr (availableSlots db doctorID (DATE (appt_StartTime a)))))])"
    by (rule GetDoctorAvailability_ok[OF assms(6) assms(4)])
next
  have "a \<in> set (bookedAppointments db doctorID (DATE (appt_StartTime a)))"
    using assms(1,3,5) by (simp add: bookedAppointments_def)
  then show "Format_1504 (appt_StartTime a)
           \<notin> set (availableSlots db doctorID (DATE (appt_StartTime a)))"
    by (simp add: availableSlots_eq)
next
  assume h: "req_DoctorID r = doctorID \<and> req_ScheduledAt r = appt_StartTime a
           \<and> req_DoctorID r \<noteq> 0 \<and> req_ScheduledAt r \<noteq> zero_Time"
  have b: "bind_BookRequest (Some r) = Some r"
    using h by (simp add: bind_BookRequest_def)
  obtain d where d: "First (\<lambda>d. doc_ID d = req_DoctorID r) (doctors db) = Some d"
    using First_key_exists[of "req_DoctorID r" doc_ID "doctors db"] assms(4) h by blast
  have "First (\<lambda>x. appt_DoctorID x = req_DoctorID r
                      \<and> appt_AppointmentDate x = req_ScheduledAt r
                      \<and> appt_StartTime x = req_ScheduledAt r) (appointments db) \<noteq> None"
    using assms(1,3,5) h by (auto simp: First_None_iff)
  then show "BookAppointment e db uid (Some r)
              = (db, Response StatusConflict
                       (error_H ''Doctor is not available at the requested time''))"
    by (auto simp: BookAppointment_def b d)
next
  show "availableSlots
            (db\<lparr>appointments := map (\<lambda>x. x\<lparr>appt_Status := f x\<rparr>) (appointments db)\<rparr>)
            doctorID date
          = availableSlots db doctorID date"
    by (rule availableSlots_restatus)
next
  show "snd (BookAppointment e
                (db\<lparr>appointments := map (\<lambda>x. x\<lparr>appt_Status := f x\<rparr>) (appointments db)\<rparr>)
                uid b)
          = snd (BookAppointment e db uid b)"
    by (rule BookAppointment_restatus)
qed

theorem cancelled_still_occupies_witness:
  "appt_at 1 1736499630 ''cancelled'' \<in> set (appointments db_offset)
   \<and> appt_Status (appt_at 1 1736499630 ''cancelled'') = StatusCancelled
   \<and> appt_DoctorID (appt_at 1 1736499630 ''cancelled'') = 1
   \<and> 1 \<in> doc_ID ` set (doctors db_offset)
   \<and> appt_AppointmentDate (appt_at 1 1736499630 ''cancelled'')
       = appt_StartTime (appt_at 1 1736499630 ''cancelled'')
   \<and> parse_date ''2025-01-10'' = Some (DATE (appt_StartTime (appt_at 1 1736499630 ''cancelled'')))
   \<and> Format_1504 (appt_StartTime (appt_at 1 1736499630 ''cancelled'')) = ''09:00''
   \<and> ''09:00'' \<notin> set (availableSlots db_offset 1 20098)
   \<and> BookAppointment [] db_offset 4 (Some (request1 1736499630))
       = (db_offset, Response StatusConflict
                       (error_H ''Doctor is not available at the requested time''))"
proof -
  let ?a = "appt_at 1 1736499630 ''cancelled''"
  have p1: "?a \<in> set (appointments db_offset)" by (simp add: db_offset_def)
  have p2: "appt_Status ?a = StatusCancelled" by (simp add: appt_at_def StatusCancelled_def)
  have p3: "appt_DoctorID ?a = 1" by (simp add: appt_at_def)
  have p4: "1 \<in> doc_ID ` set (doctors db_offset)" by (simp add: db_offset_def doctor1_def)
  have p5: "appt_AppointmentDate ?a = appt_StartTime ?a" by (simp add: appt_at_def)
  have dt: "DATE (appt_StartTime ?a) = 20098" by (simp add: appt_at_def DATE_def)
  have p6: "parse_date ''2025-01-10'' = Some (DATE (appt_StartTime ?a))"
    unfolding dt by (rule parse_date_example)
  have fm: "Format_1504 (appt_StartTime ?a) = ''09:00''"
    by (simp add: appt_at_def Format_1504_def Hour_def Minute_def two_digits_def digit_char_def)
  have rq: "req_DoctorID (request1 1736499630) = 1
            \<and> req_ScheduledAt (request1 1736499630) = appt_StartTime ?a
            \<and> req_DoctorID (request1 1736499630) \<noteq> 0
            \<and> req_ScheduledAt (request1 1736499630) \<noteq> zero_Time"
    by (simp add: request1_def appt_at_def zero_Time_def)
  note t = cancelled_still_occupies
             [OF p1 p2 p3 p4 p5 p6, of "request1 1736499630" "[]" 4]
  from t have n: "Format_1504 (appt_StartTime ?a)
           \<notin> set (availableSlots db_offset 1 (DATE (appt_StartTime ?a)))"
    by blast
  from t rq have c: "BookAppointment [] db_offset 4 (Some (request1 1736499630))
       = (db_offset, Response StatusConflict
                       (error_H ''Doctor is not available at the requested time''))"
    by blast
  from n have n': "''09:00'' \<notin> set (availableSlots db_offset 1 20098)"
    unfolding fm dt .
  show ?thesis
    by (intro conjI) (rule p1 p2 p3 p4 p5 p6 fm n' c)+
qed

section \<open>Registration and login\<close>

lemma First_Some_mem: "First P xs = Some a \<Longrightarrow> P a \<and> a \<in> set xs"
  unfolding First_def by (induction xs) (simp_all split: if_splits)

lemma bind_RegisterRequest_Some:
  "bind_RegisterRequest lib b = Some req \<Longrightarrow> b = Some req \<and> reg_Role req \<in> {PatientRole, DoctorRole}"
  by (auto simp: bind_RegisterRequest_def PatientRole_def DoctorRole_def
           split: option.splits if_splits)

lemma Create_User_Some:
  "Create_User lib db u = Some (tx, u') \<Longrightarrow>
     user_Email u \<notin> set (map user_Email (users db))
     \<and> tx = db\<lparr>users := users db @ [u']\<rparr>
     \<and> user_Email u' = user_Email u \<and> user_Role u' = user_Role u"
  by (auto simp: Create_User_def Let_def split: option.splits if_splits)

lemma Create_Doctor_users:
  "Create_Doctor tx d = Some (tx', d') \<Longrightarrow> users tx' = users tx"
  by (auto simp: Create_Doctor_def Let_def split: if_splits)

text \<open>The users after a registration: the users before, or those and one new user.\<close>

lemma RegisterUser_users:
  "users (fst (RegisterUser lib e db b)) = users db
   \<or> (\<exists>req u. b = Some req \<and> reg_Role req \<in> {PatientRole, DoctorRole}
        \<and> reg_Email req \<notin> set (map user_Email (users db))
        \<and> user_Email u = reg_Email req \<and> user_Role u = reg_Role req
        \<and> users (fst (RegisterUser lib e db b)) = users db @ [u])"
proof (cases "bind_RegisterRequest lib b")
  case None
  then show ?thesis by (simp add: RegisterUser_def)
next
  case (Some req)
  note bound = bind_RegisterRequest_Some[OF Some]
  show ?thesis
  proof (cases "First (\<lambda>u. user_Email u = reg_Email req) (users db)")
    case (Some existing)
    with \<open>bind_RegisterRequest lib b = Some req\<close> show ?thesis
      by (simp add: RegisterUser_def)
  next
    case None
    let ?u = "\<lparr>user_ID = 0, user_Name = reg_Name req, user_Email = reg_Email req,
                user_Password = reg_Password req, user_Role = reg_Role req,
                user_Active = True, user_Phone = []\<rparr>"
    show ?thesis
    proof (cases "Create_User lib db ?u")
      case None
      with \<open>bind_RegisterRequest lib b = Some req\<close>
        \<open>First (\<lambda>u. user_Email u = reg_Email req) (users db) = None\<close>
      show ?thesis by (simp add: RegisterUser_def)
    next
      case (Some p)
      obtain tx u where p: "p = (tx, u)" by (cases p)
      note c = Create_User_Some[OF Some[unfolded p]]
      have r: "fst (RegisterUser lib e db b) = db
               \<or> users (fst (RegisterUser lib e db b)) = users tx"
        using \<open>bind_RegisterRequest lib b = Some req\<close>
          \<open>First (\<lambda>u. user_Email u = reg_Email req) (users db) = None\<close> Some p
        by (auto simp: RegisterUser_def Commit_def Create_Doctor_users
                 split: option.splits if_splits)
      from r show ?thesis
      proof
        assume "fst (RegisterUser lib e db b) = db"
        then show ?thesis by simp
      next
        assume "users (fst (RegisterUser lib e db b)) = users tx"
        then have "users (fst (RegisterUser lib e db b)) = users db @ [u]"
          using c by simp
        with bound c show ?thesis by auto
      qed
    qed
  qed
qed

text \<open>
  Claim C7. A registration whose e-mail is that of a user in the table is answered with
  400, either because the body does not bind or with \<open>Email already registered\<close>, and the
  database is returned as it was. Whatever the request, if the e-mails of the users were
  all different before the registration they are all different after it.
\<close>

theorem register_duplicate_email:
  "(u \<in> set (users db) \<and> user_Email u = reg_Email req
      \<longrightarrow> fst (RegisterUser lib e db (Some req)) = db
          \<and> code (snd (RegisterUser lib e db (Some req))) = StatusBadRequest
          \<and> snd (RegisterUser lib e db (Some req))
              \<in> {Response StatusBadRequest (error_H e),
                 Response StatusBadRequest (error_H ''Email already registered'')})
   \<and> (distinct (map user_Email (users db))
      \<longrightarrow> distinct (map user_Email (users (fst (RegisterUser lib e db b)))))"
proof (intro conjI impI)
  assume h: "u \<in> set (users db) \<and> user_Email u = reg_Email req"
  then have "First (\<lambda>u. user_Email u = reg_Email req) (users db) \<noteq> None"
    by (auto simp: First_None_iff)
  then obtain x where x: "First (\<lambda>u. user_Email u = reg_Email req) (users db) = Some x"
    by (auto simp: option.exhaust_sel)
  have r: "RegisterUser lib e db (Some req) = (db, Response StatusBadRequest (error_H e))
         \<or> RegisterUser lib e db (Some req)
             = (db, Response StatusBadRequest (error_H ''Email already registered''))"
    by (cases "bind_RegisterRequest lib (Some req)")
       (auto simp: RegisterUser_def x dest: bind_RegisterRequest_Some)
  from r show "fst (RegisterUser lib e db (Some req)) = db" by auto
  from r show "code (snd (RegisterUser lib e db (Some req))) = StatusBadRequest" by auto
  from r show "snd (RegisterUser lib e db (Some req))
              \<in> {Response StatusBadRequest (error_H e),
                 Response StatusBadRequest (error_H ''Email already registered'')}" by auto
next
  assume d: "distinct (map user_Email (users db))"
  from RegisterUser_users[of lib e db b]
  show "distinct (map user_Email (users (fst (RegisterUser lib e db b))))"
  proof
    assume "users (fst (RegisterUser lib e db b)) = users db"
    with d show ?thesis by simp
  next
    assume "\<exists>req u. b = Some req \<and> reg_Role req \<in> {PatientRole, DoctorRole}
        \<and> reg_Email req \<notin> set (map user_Email (users db))
        \<and> user_Email u = reg_Email req \<and> user_Role u = reg_Role req
        \<and> users (fst (RegisterUser lib e db b)) = users db @ [u]"
    then obtain req' :: RegisterRequest and u' :: User where "reg_Email req' \<notin> set (map user_Email (users db))"
      and "user_Email u' = reg_Email req'"
      and "users (fst (RegisterUser lib e db b)) = users db @ [u']" by blast
    with d show ?thesis by simp
  qed
qed

theorem register_duplicate_email_witness:
  "account 3 ''patient@example.com'' ''patient'' True \<in> set (users db_doctor)
   \<and> user_Email (account 3 ''patient@example.com'' ''patient'' True)
       = reg_Email (register1 ''patient@example.com'' ''patient'')
   \<and> RegisterUser lib0 ''bad body'' db_doctor (Some (register1 ''patient@example.com'' ''patient''))
       = (db_doctor, Response StatusBadRequest (error_H ''Email already registered''))
   \<and> distinct (map user_Email (users db_doctor))
   \<and> distinct (map user_Email
        (users (fst (RegisterUser lib0 ''bad body'' db_doctor
                       (Some (register1 ''new@example.com'' ''patient''))))))
   \<and> length (users (fst (RegisterUser lib0 ''bad body'' db_doctor
                       (Some (register1 ''new@example.com'' ''patient''))))) = 4"
  using register_duplicate_email
          [of "account 3 ''patient@example.com'' ''patient'' True" db_doctor
              "register1 ''patient@example.com'' ''patient''" lib0 "''bad body''"
              "Some (register1 ''new@example.com'' ''patient'')"]
  by (simp add: db_doctor_def accounts_def account_def register1_def lib0_def RegisterUser_def
        bind_RegisterRequest_def RuneCount_def First_def Create_User_def Commit_def next_ID_def
        DoctorRole_def Let_def)

text \<open>
  Claim C10. A registration whose role is not exactly \<open>patient\<close> or \<open>doctor\<close>, \<open>admin\<close>
  among them, fails the binding: the answer is 400 and the database is as before. A
  registration adds no user or one user, and the role of a user it adds is \<open>patient\<close> or
  \<open>doctor\<close>; the answer 201 is given only to a request with one of these two roles. So no
  registration adds a user whose role is \<open>admin\<close>.
\<close>

theorem register_role:
  "(reg_Role req \<notin> {PatientRole, DoctorRole}
      \<longrightarrow> RegisterUser lib e db (Some req) = (db, Response StatusBadRequest (error_H e)))
   \<and> RegisterUser lib e db (Some (req\<lparr>reg_Role := AdminRole\<rparr>))
       = (db, Response StatusBadRequest (error_H e))
   \<and> (users (fst (RegisterUser lib e db b)) = users db
       \<or> (\<exists>u. users (fst (RegisterUser lib e db b)) = users db @ [u]
              \<and> user_Role u \<in> {PatientRole, DoctorRole} \<and> user_Role u \<noteq> AdminRole))
   \<and> (code (snd (RegisterUser lib e db b)) = StatusCreated
      \<longrightarrow> (\<exists>r. b = Some r \<and> reg_Role r \<in> {PatientRole, DoctorRole}))"
proof (intro conjI impI)
  assume "reg_Role req \<notin> {PatientRole, DoctorRole}"
  then have "bind_RegisterRequest lib (Some req) = None"
    by (simp add: bind_RegisterRequest_def PatientRole_def DoctorRole_def)
  then show "RegisterUser lib e db (Some req) = (db, Response StatusBadRequest (error_H e))"
    by (simp add: RegisterUser_def)
next
  have "bind_RegisterRequest lib (Some (req\<lparr>reg_Role := AdminRole\<rparr>)) = None"
    by (simp add: bind_RegisterRequest_def AdminRole_def)
  then show "RegisterUser lib e db (Some (req\<lparr>reg_Role := AdminRole\<rparr>))
       = (db, Response StatusBadRequest (error_H e))"
    by (simp add: RegisterUser_def)
next
  have n: "\<And>r. r \<in> {PatientRole, DoctorRole} \<Longrightarrow> r \<noteq> AdminRole"
    by (auto simp: PatientRole_def DoctorRole_def AdminRole_def)
  from RegisterUser_users[of lib e db b]
  show "users (fst (RegisterUser lib e db b)) = users db
       \<or> (\<exists>u. users (fst (RegisterUser lib e db b)) = users db @ [u]
              \<and> user_Role u \<in> {PatientRole, DoctorRole} \<and> user_Role u \<noteq> AdminRole)"
  proof
    assume "users (fst (RegisterUser lib e db b)) = users db"
    then show ?thesis by simp
  next
    assume "\<exists>req u. b = Some req \<and> reg_Role req \<in> {PatientRole, DoctorRole}
        \<and> reg_Email req \<notin> set (map user_Email (users db))
        \<and> user_Email u = reg_Email req \<and> user_Role u = reg_Role req
        \<and> users (fst (RegisterUser lib e db b)) = users db @ [u]"
    then obtain req' :: RegisterRequest and u' :: User where "reg_Role req' \<in> {PatientRole, DoctorRole}"
      and "user_Role u' = reg_Role req'"
      and "users (fst (RegisterUser lib e db b)) = users db @ [u']" by blast
    then have "users (fst (RegisterUser lib e db b)) = users db @ [u']
              \<and> user_Role u' \<in> {PatientRole, DoctorRole} \<and> user_Role u' \<noteq> AdminRole"
      using n[of "user_Role u'"] by simp
    then show ?thesis by blast
  qed
next
  assume c: "code (snd (RegisterUser lib e db b)) = StatusCreated"
  show "\<exists>r. b = Some r \<and> reg_Role r \<in> {PatientRole, DoctorRole}"
  proof (cases "bind_RegisterRequest lib b")
    case None
    with c show ?thesis
      by (simp add: RegisterUser_def StatusCreated_def StatusBadRequest_def)
  next
    case (Some r)
    from bind_RegisterRequest_Some[OF Some] show ?thesis by blast
  qed
qed

theorem register_role_witness:
  "reg_Role (register1 ''new@example.com'' ''admin'') \<notin> {PatientRole, DoctorRole}
   \<and> RegisterUser lib0 ''bad role'' db_doctor (Some (register1 ''new@example.com'' ''admin''))
       = (db_doctor, Response StatusBadRequest (error_H ''bad role''))
   \<and> code (snd (RegisterUser lib0 ''bad role'' db_doctor
                  (Some (register1 ''new@example.com'' ''doctor'')))) = StatusCreated
   \<and> map user_Role (users (fst (RegisterUser lib0 ''bad role'' db_doctor
                  (Some (register1 ''new@example.com'' ''doctor'')))))
       = [''doctor'', ''patient'', ''patient'', ''doctor'']"
  using register_role [of "register1 ''new@example.com'' ''admin''" lib0 "''bad role''" db_doctor
                          "Some (register1 ''new@example.com'' ''doctor'')"]
  by (simp add: db_doctor_def accounts_def account_def register1_def lib0_def RegisterUser_def
        bind_RegisterRequest_def RuneCount_def First_def Create_User_def Create_Doctor_def
        Commit_def next_ID_def doctor1_def
        DoctorRole_def PatientRole_def AdminRole_def StatusCreated_def Let_def)

lemma First_email:
  assumes "distinct (map user_Email (users db))" and "u \<in> set (users db)"
    and "user_Email u = m"
  shows "First (\<lambda>x. user_Email x = m) (users db) = Some u"
  unfolding First_def
  using assms by (intro find_unique_key[where k = user_Email]) simp_all

text \<open>
  Claim C8, as the handler has it. The e-mails of the users are all different. A login
  attempt whose body does not bind (no body, no e-mail, an e-mail that is no address, or
  no password) gets 400 with the binding error, whatever the account. For an attempt that
  binds: if no user has the e-mail, or the password does not match the stored hash of the
  user that has it, the answer is 401; if the password matches and the user is not
  active, the answer is 403; if the password matches and the user is active, the token
  generator is called for the user's key, e-mail and role, and the answer is 200 with the
  token and the user's key, name, e-mail and role, or 500 if the generator fails.
\<close>

theorem login_outcomes:
  assumes "distinct (map user_Email (users db))"
  shows "((b = None
           \<or> (b = Some r \<and> (login_Email r = [] \<or> \<not> is_email lib (login_Email r)
                              \<or> login_Password r = [])))
          \<longrightarrow> LoginUser lib e db b = Response 400 (JObj [(''error'', JStr e)]))
       \<and> (b = Some r \<and> login_Email r \<noteq> [] \<and> is_email lib (login_Email r)
            \<and> login_Password r \<noteq> []
          \<longrightarrow> (login_Email r \<notin> user_Email ` set (users db)
                \<longrightarrow> LoginUser lib e db b
                    = Response 401 (JObj [(''error'', JStr ''Invalid email or password'')]))
              \<and> (u \<in> set (users db) \<and> user_Email u = login_Email r
                  \<and> \<not> CompareHashAndPassword lib (user_Password u) (login_Password r)
                \<longrightarrow> LoginUser lib e db b
                    = Response 401 (JObj [(''error'', JStr ''Invalid email or password'')]))
              \<and> (u \<in> set (users db) \<and> user_Email u = login_Email r
                  \<and> CompareHashAndPassword lib (user_Password u) (login_Password r)
                  \<and> \<not> user_Active u
                \<longrightarrow> LoginUser lib e db b
                    = Response 403 (JObj [(''error'', JStr ''Account is deactivated'')]))
              \<and> (u \<in> set (users db) \<and> user_Email u = login_Email r
                  \<and> CompareHashAndPassword lib (user_Password u) (login_Password r)
                  \<and> user_Active u
                \<longrightarrow> LoginUser lib e db b
                    = (case GenerateToken lib (user_ID u) (user_Email u) (user_Role u) of
                         Some token \<Rightarrow>
                           Response 200
                             (JObj [(''token'', JStr token),
                                    (''user'', JObj [(''id'', JNum (int (user_ID u))),
                                                     (''name'', JStr (user_Name u)),
                                                     (''email'', JStr (user_Email u)),
                                                     (''role'', JStr (user_Role u))])])
                       | None \<Rightarrow>
                           Response 500 (JObj [(''error'', JStr ''Failed to generate token'')]))))"
proof (intro conjI impI)
  assume "b = None
           \<or> (b = Some r \<and> (login_Email r = [] \<or> \<not> is_email lib (login_Email r)
                              \<or> login_Password r = []))"
  then have "bind_LoginRequest lib b = None"
    by (auto simp: bind_LoginRequest_def)
  then show "LoginUser lib e db b = Response 400 (JObj [(''error'', JStr e)])"
    by (simp add: LoginUser_def StatusBadRequest_def error_H_def)
next
  assume "b = Some r \<and> login_Email r \<noteq> [] \<and> is_email lib (login_Email r)
            \<and> login_Password r \<noteq> []"
  then have bd: "bind_LoginRequest lib b = Some r"
    by (simp add: bind_LoginRequest_def)
  {
    assume "login_Email r \<notin> user_Email ` set (users db)"
    then have "First (\<lambda>x. user_Email x = login_Email r) (users db) = None"
      by (rule First_key_missing)
    then show "LoginUser lib e db b
        = Response 401 (JObj [(''error'', JStr ''Invalid email or password'')])"
      by (simp add: LoginUser_def bd StatusUnauthorized_def error_H_def)
  next
    assume h: "u \<in> set (users db) \<and> user_Email u = login_Email r
              \<and> \<not> CompareHashAndPassword lib (user_Password u) (login_Password r)"
    then have "First (\<lambda>x. user_Email x = login_Email r) (users db) = Some u"
      using First_email[OF assms] by simp
    with h show "LoginUser lib e db b
        = Response 401 (JObj [(''error'', JStr ''Invalid email or password'')])"
      by (simp add: LoginUser_def bd StatusUnauthorized_def error_H_def)
  next
    assume h: "u \<in> set (users db) \<and> user_Email u = login_Email r
              \<and> CompareHashAndPassword lib (user_Password u) (login_Password r)
              \<and> \<not> user_Active u"
    then have "First (\<lambda>x. user_Email x = login_Email r) (users db) = Some u"
      using First_email[OF assms] by simp
    with h show "LoginUser lib e db b
        = Response 403 (JObj [(''error'', JStr ''Account is deactivated'')])"
      by (simp add: LoginUser_def bd StatusForbidden_def error_H_def)
  next
    assume h: "u \<in> set (users db) \<and> user_Email u = login_Email r
              \<and> CompareHashAndPassword lib (user_Password u) (login_Password r)
              \<and> user_Active u"
    then have f: "First (\<lambda>x. user_Email x = login_Email r) (users db) = Some u"
      using First_email[OF assms] by simp
    show "LoginUser lib e db b
        = (case GenerateToken lib (user_ID u) (user_Email u) (user_Role u) of
             Some token \<Rightarrow>
               Response 200
                 (JObj [(''token'', JStr token),
                        (''user'', JObj [(''id'', JNum (int (user_ID u))),
                                         (''name'', JStr (user_Name u)),
                                         (''email'', JStr (user_Email u)),
                                         (''role'', JStr (user_Role u))])])
           | None \<Rightarrow>
               Response 500 (JObj [(''error'', JStr ''Failed to generate token'')]))"
    proof (cases "GenerateToken lib (user_ID u) (login_Email r) (user_Role u)")
      case None
      with h f show ?thesis
        by (simp add: LoginUser_def bd StatusInternalServerError_def error_H_def)
    next
      case (Some token)
      with h f show ?thesis
        by (simp add: LoginUser_def bd StatusOK_def AuthResponse_json_def)
    qed
  }
qed

text \<open>
  The outcomes on the accounts of the examples: the patient with the
  right password, with a wrong one, an unknown address, the deactivated patient, the
  patient with the right password when no token can be generated, and an attempt without
  an e-mail.
\<close>

theorem login_outcomes_witness:
  "(distinct (map user_Email (users db_doctor))
    \<and> account 3 ''patient@example.com'' ''patient'' True \<in> set (users db_doctor)
    \<and> account 4 ''inactive@example.com'' ''patient'' False \<in> set (users db_doctor)
    \<and> ''nonexistent@example.com'' \<notin> user_Email ` set (users db_doctor))
   \<and> LoginUser lib0 ''bad body'' db_doctor
        (Some \<lparr>login_Email = ''patient@example.com'', login_Password = ''password123''\<rparr>)
       = Response 200
           (JObj [(''token'', JStr ''token for patient@example.com''),
                  (''user'', JObj [(''id'', JNum 3),
                                   (''name'', JStr ''Test User''),
                                   (''email'', JStr ''patient@example.com''),
                                   (''role'', JStr ''patient'')])])
   \<and> LoginUser lib0 ''bad body'' db_doctor
        (Some \<lparr>login_Email = ''patient@example.com'', login_Password = ''wrongpassword''\<rparr>)
       = Response 401 (JObj [(''error'', JStr ''Invalid email or password'')])
   \<and> LoginUser lib0 ''bad body'' db_doctor
        (Some \<lparr>login_Email = ''nonexistent@example.com'', login_Password = ''password123''\<rparr>)
       = Response 401 (JObj [(''error'', JStr ''Invalid email or password'')])
   \<and> LoginUser lib0 ''bad body'' db_doctor
        (Some \<lparr>login_Email = ''inactive@example.com'', login_Password = ''password123''\<rparr>)
       = Response 403 (JObj [(''error'', JStr ''Account is deactivated'')])
   \<and> LoginUser (lib0\<lparr>GenerateToken := \<lambda>i m rl. None\<rparr>) ''bad body'' db_doctor
        (Some \<lparr>login_Email = ''patient@example.com'', login_Password = ''password123''\<rparr>)
       = Response 500 (JObj [(''error'', JStr ''Failed to generate token'')])
   \<and> LoginUser lib0 ''bad body'' db_doctor
        (Some \<lparr>login_Email = [], login_Password = ''password123''\<rparr>)
       = Response 400 (JObj [(''error'', JStr ''bad body'')])"
proof -
  note ev = db_doctor_def accounts_def account_def lib0_def
  have dist: "distinct (map user_Email (users db_doctor))"
    by (simp add: ev)
  have h: "distinct (map user_Email (users db_doctor))
    \<and> account 3 ''patient@example.com'' ''patient'' True \<in> set (users db_doctor)
    \<and> account 4 ''inactive@example.com'' ''patient'' False \<in> set (users db_doctor)
    \<and> ''nonexistent@example.com'' \<notin> user_Email ` set (users db_doctor)"
    by (simp add: ev)
  have ok: "LoginUser lib0 ''bad body'' db_doctor
        (Some \<lparr>login_Email = ''patient@example.com'', login_Password = ''password123''\<rparr>)
       = Response 200
           (JObj [(''token'', JStr ''token for patient@example.com''),
                  (''user'', JObj [(''id'', JNum 3),
                                   (''name'', JStr ''Test User''),
                                   (''email'', JStr ''patient@example.com''),
                                   (''role'', JStr ''patient'')])])"
    using login_outcomes
            [OF dist,
             where b = "Some \<lparr>login_Email = ''patient@example.com'',
                              login_Password = ''password123''\<rparr>"
               and r = "\<lparr>login_Email = ''patient@example.com'', login_Password = ''password123''\<rparr>"
               and lib = lib0 and e = "''bad body''"
               and u = "account 3 ''patient@example.com'' ''patient'' True",
             THEN conjunct2]
          h
    by (simp add: account_def lib0_def)
  have wrong: "LoginUser lib0 ''bad body'' db_doctor
        (Some \<lparr>login_Email = ''patient@example.com'', login_Password = ''wrongpassword''\<rparr>)
       = Response 401 (JObj [(''error'', JStr ''Invalid email or password'')])"
    using login_outcomes
            [OF dist,
             where b = "Some \<lparr>login_Email = ''patient@example.com'',
                              login_Password = ''wrongpassword''\<rparr>"
               and r = "\<lparr>login_Email = ''patient@example.com'',
                         login_Password = ''wrongpassword''\<rparr>"
               and lib = lib0 and e = "''bad body''"
               and u = "account 3 ''patient@example.com'' ''patient'' True",
             THEN conjunct2]
          h
    by (simp add: account_def lib0_def)
  have unknown: "LoginUser lib0 ''bad body'' db_doctor
        (Some \<lparr>login_Email = ''nonexistent@example.com'', login_Password = ''password123''\<rparr>)
       = Response 401 (JObj [(''error'', JStr ''Invalid email or password'')])"
    using login_outcomes
            [OF dist,
             where b = "Some \<lparr>login_Email = ''nonexistent@example.com'',
                              login_Password = ''password123''\<rparr>"
               and r = "\<lparr>login_Email = ''nonexistent@example.com'',
                         login_Password = ''password123''\<rparr>"
               and lib = lib0 and e = "''bad body''",
             THEN conjunct2]
          h
    by (simp add: lib0_def)
  have inactive: "LoginUser lib0 ''bad body'' db_doctor
        (Some \<lparr>login_Email = ''inactive@example.com'', login_Password = ''password123''\<rparr>)
       = Response 403 (JObj [(''error'', JStr ''Account is deactivated'')])"
    using login_outcomes
            [OF dist,
             where b = "Some \<lparr>login_Email = ''inactive@example.com'',
                              login_Password = ''password123''\<rparr>"
               and r = "\<lparr>login_Email = ''inactive@example.com'',
                         login_Password = ''password123''\<rparr>"
               and lib = lib0 and e = "''bad body''"
               and u = "account 4 ''inactive@example.com'' ''patient'' False",
             THEN conjunct2]
          h
    by (simp add: account_def lib0_def)
  have notoken: "LoginUser (lib0\<lparr>GenerateToken := \<lambda>i m rl. None\<rparr>) ''bad body'' db_doctor
        (Some \<lparr>login_Email = ''patient@example.com'', login_Password = ''password123''\<rparr>)
       = Response 500 (JObj [(''error'', JStr ''Failed to generate token'')])"
    using login_outcomes
            [OF dist,
             where b = "Some \<lparr>login_Email = ''patient@example.com'',
                              login_Password = ''password123''\<rparr>"
               and r = "\<lparr>login_Email = ''patient@example.com'', login_Password = ''password123''\<rparr>"
               and lib = "lib0\<lparr>GenerateToken := \<lambda>i m rl. None\<rparr>" and e = "''bad body''"
               and u = "account 3 ''patient@example.com'' ''patient'' True",
             THEN conjunct2]
          h
    by (simp add: account_def lib0_def)
  have nomail: "LoginUser lib0 ''bad body'' db_doctor
        (Some \<lparr>login_Email = [], login_Password = ''password123''\<rparr>)
       = Response 400 (JObj [(''error'', JStr ''bad body'')])"
    using login_outcomes
            [OF dist,
             where b = "Some \<lparr>login_Email = [], login_Password = ''password123''\<rparr>"
               and r = "\<lparr>login_Email = [], login_Password = ''password123''\<rparr>"
               and lib = lib0 and e = "''bad body''",
             THEN conjunct1]
    by simp
  show ?thesis
    by (rule conjI[OF h], intro conjI, (rule ok wrong unknown inactive notoken nomail)+)
qed

text \<open>
  Claim C8 as stated fails for attempts that do not bind. The patient's account exists
  and is active, and the empty password does not match its hash; the attempt with the
  patient's e-mail and no password gets 400, not 401. No account has the address
  \<open>nobody\<close>, which is no e-mail address; the attempt with it gets 400, not 401.
\<close>

theorem login_bad_request_counterexample:
  "account 3 ''patient@example.com'' ''patient'' True \<in> set (users db_doctor)
   \<and> \<not> CompareHashAndPassword lib0
          (user_Password (account 3 ''patient@example.com'' ''patient'' True)) []
   \<and> LoginUser lib0 ''bad body'' db_doctor
        (Some \<lparr>login_Email = ''patient@example.com'', login_Password = []\<rparr>)
       = Response 400 (JObj [(''error'', JStr ''bad body'')])
   \<and> ''nobody'' \<notin> user_Email ` set (users db_doctor)
   \<and> LoginUser lib0 ''bad body'' db_doctor
        (Some \<lparr>login_Email = ''nobody'', login_Password = ''password123''\<rparr>)
       = Response 400 (JObj [(''error'', JStr ''bad body'')])"
  by (simp add: db_doctor_def accounts_def account_def lib0_def LoginUser_def
        bind_LoginRequest_def StatusBadRequest_def error_H_def)

section \<open>Payload shapes\<close>



























end
